theory Spec2Isabelle
  imports Main "HOL-Library.Word"
begin

section \<open>JavaScript values, strings and errors\<close>

text \<open>
  A JavaScript string is modelled as a \<^typ>\<open>string\<close>: each \<^typ>\<open>char\<close> stands
  for one code unit below 256. The value type covers what a caller can hand to
  \<^verbatim>\<open>loadUser\<close> as a handle: \<^verbatim>\<open>undefined\<close>, \<^verbatim>\<open>null\<close>, a boolean, a string, or
  a number that is an integer from \<open>- 2 ^ 53\<close> to \<open>2 ^ 53 - 1\<close>, held as a signed word
  of 54 bits (\<^verbatim>\<open>sint\<close> reads it). On these a template literal prints every digit;
  other numbers are not values of the model.
\<close>

datatype jsval = JUndefined | JNull | JBool bool | JNum "54 word" | JStr string

text \<open>Truthiness, as \<^verbatim>\<open>!x\<close>, \<^verbatim>\<open>x && y\<close> and \<^verbatim>\<open>x || y\<close> test it.\<close>

fun truthy :: "jsval \<Rightarrow> bool" where
  "truthy JUndefined = False"
| "truthy JNull = False"
| "truthy (JBool b) = b"
| "truthy (JNum n) = (n \<noteq> 0)"
| "truthy (JStr s) = (s \<noteq> [])"

text \<open>Decimal rendering of a natural number, as a template literal prints it.\<close>

function show_nat :: "nat \<Rightarrow> string" where
  "show_nat n =
     (if n < 10 then [''0123456789'' ! n]
      else show_nat (n div 10) @ [''0123456789'' ! (n mod 10)])"
  by pat_completeness auto
termination
  by (relation "measure id") auto

declare show_nat.simps [simp del]

text \<open>\<^verbatim>\<open>`${v}`\<close>: the string a template literal makes of a value.\<close>

fun ToString :: "jsval \<Rightarrow> string" where
  "ToString JUndefined = ''undefined''"
| "ToString JNull = ''null''"
| "ToString (JBool b) = (if b then ''true'' else ''false'')"
| "ToString (JNum n) =
     (if sint n < 0 then ''-'' @ show_nat (nat (- sint n)) else show_nat (nat (sint n)))"
| "ToString (JStr s) = s"

text \<open>\<^verbatim>\<open>s.includes(p)\<close>: \<open>p\<close> occurs in \<open>s\<close> as a contiguous substring.\<close>

fun startsWith :: "string \<Rightarrow> string \<Rightarrow> bool" where
  "startsWith s [] = True"
| "startsWith [] (p # ps) = False"
| "startsWith (c # s) (p # ps) = (c = p \<and> startsWith s ps)"

fun includes_str :: "string \<Rightarrow> string \<Rightarrow> bool" where
  "includes_str [] p = (p = [])"
| "includes_str (c # s) p = (startsWith (c # s) p \<or> includes_str s p)"

text \<open>
  \<^verbatim>\<open>s.trim()\<close> strips white space and line terminators from both ends; below 256
  these are the code units 9 to 13, 32 and 160.
\<close>

definition isWhiteSpace :: "char \<Rightarrow> bool" where
  "isWhiteSpace c =
     (c \<in> set [CHR 0x09, CHR 0x0A, CHR 0x0B, CHR 0x0C, CHR 0x0D, CHR 0x20, CHR 0xA0])"

definition trim :: "string \<Rightarrow> string" where
  "trim s = rev (dropWhile isWhiteSpace (rev (dropWhile isWhiteSpace s)))"

text \<open>
  A thrown \<^verbatim>\<open>Error\<close> object: its \<^verbatim>\<open>name\<close> (\<^verbatim>\<open>"Error"\<close> for \<^verbatim>\<open>new Error(m)\<close>,
  \<^verbatim>\<open>"TypeError"\<close> for a failed \<^verbatim>\<open>fetch\<close>, ...) and its \<^verbatim>\<open>message\<close>.
\<close>

datatype js_error = JsError (error_name: string) (message: string)

definition new_Error :: "string \<Rightarrow> js_error" where
  "new_Error m = JsError ''Error'' m"

section \<open>ApiService (js/apiService.js)\<close>

subsection \<open>Configuration\<close>

definition baseUrl :: string where
  "baseUrl = ''https://api.github.com/users''"

definition usernames :: "string list" where
  "usernames =
     [''octocat'', ''defunkt'', ''mojombo'', ''wycats'', ''ezmobius'', ''ivey'', ''evanphx'',
      ''vanpelt'', ''wayneeseguin'', ''brynary'', ''kevinclark'', ''technoweenie'',
      ''macournoyer'', ''takeo'', ''caged'', ''topfunky'', ''anotherjesse'', ''roland'',
      ''lukas'', ''fanvsfan'', ''tomtt'', ''railsjitsu'', ''nitay'', ''kevwil'', ''KirinDave'',
      ''jamesgolick'', ''atmos'', ''errfree'', ''mojodna'', ''bmizerany'', ''jnewland'',
      ''josh'', ''fearoffish'', ''court3nay'', ''ry'', ''bkeepers'', ''indirect'',
      ''jamtur01'', ''kneath'', ''bendycode'', ''ryanseys'']"

subsection \<open>The raw payload and the processed record\<close>

text \<open>
  The raw payload \<^verbatim>\<open>data\<close> is the user object of the upstream API: its text fields
  are strings, and the nullable ones are \<open>None\<close> when the field is \<^verbatim>\<open>null\<close> or
  missing; its counts are natural numbers.
\<close>

record data =
  data_id :: nat
  data_login :: string
  data_name :: "string option"
  data_avatar_url :: string
  data_bio :: "string option"
  data_location :: "string option"
  data_email :: "string option"
  data_company :: "string option"
  data_blog :: "string option"
  data_followers :: "nat option"
  data_following :: "nat option"
  data_public_repos :: "nat option"
  data_created_at :: string
  data_html_url :: string

text \<open>The object \<^verbatim>\<open>processUserData\<close> returns; \<open>None\<close> is \<^verbatim>\<open>null\<close>.\<close>

record user =
  id_user :: nat
  username :: string
  name :: string
  avatar :: string
  bio :: string
  location :: string
  email :: "string option"
  company :: "string option"
  blog :: "string option"
  followers :: nat
  following :: nat
  publicRepos :: nat
  joinDate :: string
  htmlUrl :: string

text \<open>
  \<^verbatim>\<open>x || d\<close> on a nullable string: \<open>d\<close> when \<open>x\<close> is \<^verbatim>\<open>null\<close>, missing or the
  empty string (all falsy), else \<open>x\<close>. Likewise \<^verbatim>\<open>x || null\<close> and, on a count,
  \<^verbatim>\<open>x || 0\<close>.
\<close>

fun or_string :: "string option \<Rightarrow> string \<Rightarrow> string" where
  "or_string None d = d"
| "or_string (Some s) d = (if s = [] then d else s)"

fun or_null :: "string option \<Rightarrow> string option" where
  "or_null None = None"
| "or_null (Some s) = (if s = [] then None else Some s)"

fun or_zero :: "nat option \<Rightarrow> nat" where
  "or_zero None = 0"
| "or_zero (Some n) = (if n = 0 then 0 else n)"

definition processUserData :: "data \<Rightarrow> user" where
  "processUserData d =
     \<lparr> id_user = data_id d,
       username = data_login d,
       name = or_string (data_name d) (data_login d),
       avatar = data_avatar_url d,
       bio = or_string (data_bio d) ''No bio available'',
       location = or_string (data_location d) ''Location not specified'',
       email = or_null (data_email d),
       company = or_null (data_company d),
       blog = or_null (data_blog d),
       followers = or_zero (data_followers d),
       following = or_zero (data_following d),
       publicRepos = or_zero (data_public_repos d),
       joinDate = data_created_at d,
       htmlUrl = data_html_url d \<rparr>"

subsection \<open>Error classification\<close>

text \<open>
  \<^verbatim>\<open>handleHttpError\<close> and \<^verbatim>\<open>handleNetworkError\<close> never return: each call ends in a
  \<^verbatim>\<open>throw\<close>. The model gives the error thrown.
\<close>

definition handleHttpError :: "nat \<Rightarrow> js_error" where
  "handleHttpError status =
     (if status = 404 then new_Error ''User not found. Please try again.''
      else if status = 403 then new_Error ''API rate limit exceeded. Please try again later.''
      else if status = 500 then new_Error ''Server error. Please try again later.''
      else new_Error (''HTTP error! status: '' @ show_nat status))"

definition handleNetworkError :: "js_error \<Rightarrow> js_error" where
  "handleNetworkError error =
     (if error_name error = ''TypeError'' \<and> includes_str (message error) ''fetch''
      then new_Error ''Network error. Please check your internet connection.''
      else error)"

text \<open>
  \<^verbatim>\<open>isValidUsername\<close> returns what \<^verbatim>\<open>a && b && c\<close> evaluates to: the first falsy
  operand, or the last one.
\<close>

definition isValidUsername :: "jsval \<Rightarrow> jsval" where
  "isValidUsername u =
     (if \<not> truthy u then u
      else (case u of
              JStr s \<Rightarrow> JBool (length (trim s) > 0)
            | _ \<Rightarrow> JBool False))"

subsection \<open>The network\<close>

text \<open>
  What one \<^verbatim>\<open>fetch(url)\<close> comes to: the promise rejects with an error (a transport
  failure), or it resolves to a response with a status and a body; \<^verbatim>\<open>response.json()\<close>
  then either rejects (\<open>Inl\<close>) or yields the payload (\<open>Inr\<close>).
\<close>

record response =
  status :: nat
  json :: "js_error + data"

datatype outcome = Rejected js_error | Resolved response

definition ok :: "response \<Rightarrow> bool" where
  "ok r = (200 \<le> status r \<and> status r \<le> 299)"

text \<open>
  \<^verbatim>\<open>fetchUserData\<close> in two halves around its \<^verbatim>\<open>await fetch(...)\<close>: the URL it
  requests, and what it returns (\<open>Inr\<close>) or throws (\<open>Inl\<close>) once the network has
  answered.
\<close>

definition fetchUserData_url :: "jsval \<Rightarrow> string" where
  "fetchUserData_url u = baseUrl @ ''/'' @ ToString u"

definition fetchUserData_resume :: "outcome \<Rightarrow> js_error + user" where
  "fetchUserData_resume out =
     (case out of
        Rejected e \<Rightarrow> Inl (handleNetworkError e)
      | Resolved r \<Rightarrow>
          (if \<not> ok r then Inl (handleNetworkError (handleHttpError (status r)))
           else (case json r of
                   Inl e \<Rightarrow> Inl (handleNetworkError e)
                 | Inr d \<Rightarrow> Inr (processUserData d))))"

text \<open>
  The DataSource run to completion. The trace \<open>io\<close> lists, oldest first, the requests
  made and the timers set; the network answers the \<open>k\<close>-th request (counted from 0)
  for \<open>url\<close> with \<open>net k url\<close>.
\<close>

datatype io_event = Fetch string | SetTimeout nat

type_synonym network = "nat \<Rightarrow> string \<Rightarrow> outcome"

definition is_Fetch :: "io_event \<Rightarrow> bool" where
  "is_Fetch ev = (case ev of Fetch _ \<Rightarrow> True | SetTimeout _ \<Rightarrow> False)"

definition fetch_count :: "io_event list \<Rightarrow> nat" where
  "fetch_count io = length (filter is_Fetch io)"

definition fetchUserData :: "network \<Rightarrow> jsval \<Rightarrow> io_event list \<Rightarrow> (js_error + user) \<times> io_event list" where
  "fetchUserData net u io =
     (let url = fetchUserData_url u
      in (fetchUserData_resume (net (fetch_count io) url), io @ [Fetch url]))"

text \<open>
  \<^verbatim>\<open>fetchUserWithRetry\<close>: the \<^verbatim>\<open>for\<close> loop from \<open>attempt\<close> on. \<open>Inl None\<close> is the
  \<^verbatim>\<open>throw lastError\<close> of a loop that never ran (\<^verbatim>\<open>undefined\<close> is thrown). The delay
  handed to \<^verbatim>\<open>setTimeout\<close> is in milliseconds.
\<close>

function retry_loop ::
  "network \<Rightarrow> jsval \<Rightarrow> nat \<Rightarrow> nat \<Rightarrow> js_error option \<Rightarrow> io_event list
     \<Rightarrow> (js_error option + user) \<times> io_event list" where
  "retry_loop net u maxRetries attempt lastError io =
     (if attempt \<le> maxRetries then
        (case fetchUserData net u io of
           (Inr userData, io1) \<Rightarrow> (Inr userData, io1)
         | (Inl error, io1) \<Rightarrow>
             (if includes_str (message error) ''not found''
                 \<or> includes_str (message error) ''rate limit''
              then (Inl (Some error), io1)
              else retry_loop net u maxRetries (attempt + 1) (Some error)
                     (if attempt < maxRetries
                      then io1 @ [SetTimeout (2 ^ attempt * 1000)]
                      else io1)))
      else (Inl lastError, io))"
  by pat_completeness auto
termination
  by (relation "measure (\<lambda>(net, u, maxRetries, attempt, lastError, io). Suc maxRetries - attempt)") auto

declare retry_loop.simps [simp del]

definition fetchUserWithRetry ::
  "network \<Rightarrow> jsval \<Rightarrow> nat \<Rightarrow> io_event list \<Rightarrow> (js_error option + user) \<times> io_event list" where
  "fetchUserWithRetry net u maxRetries io = retry_loop net u maxRetries 1 None io"

section \<open>DomManager (js/domManager.js), as the controller sees it\<close>

text \<open>
  The renderer is an external collaborator: the model records each call the controller
  makes on it (and each \<^verbatim>\<open>console.error\<close>), oldest first, and keeps the one piece
  of its state that a call returns: whether the follow button reads \<^verbatim>\<open>"Following"\<close>.
\<close>

datatype effect =
    AddRefreshButtonLoading
  | RemoveRefreshButtonLoading
  | ToggleFollow
  | ShowNotification string string
  | ShowMessageModal string string
  | ShowLoadingState
  | ShowErrorState string
  | DisplayUserData user
  | ShowProfileCard
  | ConsoleError string js_error

text \<open>
  A suspended \<^verbatim>\<open>async\<close> call of the controller, waiting for the answer to its
  request: the method whose \<^verbatim>\<open>await\<close> is pending. \<open>K_handleRefresh\<close> is
  \<^verbatim>\<open>handleRefresh\<close> awaiting its \<^verbatim>\<open>loadRandomUser\<close>; \<^verbatim>\<open>handleRetry\<close> and the
  first branch of \<^verbatim>\<open>refreshCurrentUser\<close> do nothing after theirs, so they resume as
  \<open>K_loadRandomUser\<close>.
\<close>

datatype continuation = K_loadRandomUser | K_loadUser | K_refreshCurrentUser | K_handleRefresh

text \<open>
  One widget instance and its surroundings: the two fields of \<^verbatim>\<open>ProfileCardApp\<close>,
  the calls made on the renderer, the follow button, the URLs handed to \<^verbatim>\<open>fetch\<close>
  (oldest first), the requests not yet answered, each with the call it resumes, and
  the number of \<^verbatim>\<open>Math.random()\<close> calls made.
\<close>

record world =
  currentUser :: "user option"
  isLoading :: bool
  effects :: "effect list"
  followBtn_Following :: bool
  requests :: "string list"
  pending :: "(nat \<times> continuation) list"
  random_calls :: nat

definition call :: "effect \<Rightarrow> world \<Rightarrow> world" where
  "call c w = w\<lparr>effects := effects w @ [c]\<rparr>"

definition fetch :: "string \<Rightarrow> world \<Rightarrow> world" where
  "fetch url w = w\<lparr>requests := requests w @ [url]\<rparr>"

text \<open>
  \<^verbatim>\<open>Math.random()\<close> returns a double \<open>r\<close>. Double arithmetic is not modelled: a
  draw holds what the code computes from \<open>r\<close>, namely \<^verbatim>\<open>Math.floor(r * n)\<close> for a
  length \<open>n\<close> and \<^verbatim>\<open>r > 0.5\<close>. The \<open>k\<close>-th call (counted from 0) returns \<open>rnd k\<close>.
\<close>

record draw =
  floor_times :: "nat \<Rightarrow> int"
  gt_half :: bool

text \<open>
  \<^verbatim>\<open>getRandomUsername\<close> indexes the list with \<^verbatim>\<open>Math.floor(Math.random() * length)\<close>;
  an index outside the list reads \<^verbatim>\<open>undefined\<close>.
\<close>

definition getRandomUsername :: "(nat \<Rightarrow> draw) \<Rightarrow> world \<Rightarrow> jsval \<times> world" where
  "getRandomUsername rnd w =
     (let i = floor_times (rnd (random_calls w)) (length usernames)
      in (if 0 \<le> i \<and> i < int (length usernames) then JStr (usernames ! nat i) else JUndefined,
          w\<lparr>random_calls := random_calls w + 1\<rparr>))"

text \<open>
  The page (\<^verbatim>\<open>index.html\<close>) is a parameter: for each element that \<^verbatim>\<open>displayUserData\<close>
  writes to without a guard, whether \<^verbatim>\<open>getElementById\<close> found it. Writing a property
  of a missing element (\<^verbatim>\<open>null\<close>) throws a \<^verbatim>\<open>TypeError\<close>, whose message is the
  engine's: \<open>null_message\<close> gives it for the element named. (The three counters are
  written later, in animation frames, outside the controller's \<^verbatim>\<open>try\<close>; the elements
  that \<^verbatim>\<open>showLoadingState\<close>, \<^verbatim>\<open>showErrorState\<close> and \<^verbatim>\<open>showProfileCard\<close> use are guarded.
  A click on a button happens only on a page that has the button, since \<^verbatim>\<open>bindEvents\<close>
  installs a listener on an existing element only.)
\<close>

record page =
  userAvatar :: bool
  userName :: bool
  userTitle :: bool
  userLocation :: bool
  userEmail :: bool
  userCompany :: bool
  userWebsite :: bool
  userJoinDate :: bool
  userBio :: bool
  followBtn :: bool
  null_message :: "string \<Rightarrow> string"

definition null_TypeError :: "page \<Rightarrow> string \<Rightarrow> js_error" where
  "null_TypeError pg el = JsError ''TypeError'' (null_message pg el)"

text \<open>
  The parts of \<^verbatim>\<open>displayUserData\<close>, each giving the error it throws, if any.
  \<^verbatim>\<open>updateBasicInfo\<close> writes the avatar, the name, the title and the location;
  \<^verbatim>\<open>updateStats\<close> starts three \<^verbatim>\<open>animateNumber\<close>, each drawing one random number for
  its id, and throws nothing; \<^verbatim>\<open>updateDetails\<close> writes the email, the company, the
  website and the join date; \<^verbatim>\<open>updateBio\<close> writes the bio; \<^verbatim>\<open>updateFollowButton\<close>
  draws a number (\<^verbatim>\<open>Math.random() > 0.5\<close>) and then writes the follow button.
  On a record made by \<^verbatim>\<open>processUserData\<close> from the typed payload nothing else in
  them throws: \<^verbatim>\<open>blog\<close> is a string where \<^verbatim>\<open>updateWebsite\<close> calls \<^verbatim>\<open>startsWith\<close>
  on it.
\<close>

definition updateBasicInfo :: "page \<Rightarrow> js_error option" where
  "updateBasicInfo pg =
     (if \<not> userAvatar pg then Some (null_TypeError pg ''userAvatar'')
      else if \<not> userName pg then Some (null_TypeError pg ''userName'')
      else if \<not> userTitle pg then Some (null_TypeError pg ''userTitle'')
      else if \<not> userLocation pg then Some (null_TypeError pg ''userLocation'')
      else None)"

definition updateStats :: "world \<Rightarrow> world" where
  "updateStats w = w\<lparr>random_calls := random_calls w + 3\<rparr>"

definition updateDetails :: "page \<Rightarrow> js_error option" where
  "updateDetails pg =
     (if \<not> userEmail pg then Some (null_TypeError pg ''userEmail'')
      else if \<not> userCompany pg then Some (null_TypeError pg ''userCompany'')
      else if \<not> userWebsite pg then Some (null_TypeError pg ''userWebsite'')
      else if \<not> userJoinDate pg then Some (null_TypeError pg ''userJoinDate'')
      else None)"

definition updateBio :: "page \<Rightarrow> js_error option" where
  "updateBio pg = (if \<not> userBio pg then Some (null_TypeError pg ''userBio'') else None)"

definition updateFollowButton :: "page \<Rightarrow> (nat \<Rightarrow> draw) \<Rightarrow> world \<Rightarrow> js_error option \<times> world" where
  "updateFollowButton pg rnd w =
     (let isFollowing = gt_half (rnd (random_calls w));
          w1 = w\<lparr>random_calls := random_calls w + 1\<rparr>
      in if \<not> followBtn pg then (Some (null_TypeError pg ''followBtn''), w1)
         else (None, w1\<lparr>followBtn_Following := isFollowing\<rparr>))"

text \<open>
  \<^verbatim>\<open>displayUserData\<close> runs the five parts in order and stops at the first throw: it
  gives the error thrown, if any, and the state reached.
\<close>

definition displayUserData ::
  "page \<Rightarrow> (nat \<Rightarrow> draw) \<Rightarrow> user \<Rightarrow> world \<Rightarrow> js_error option \<times> world" where
  "displayUserData pg rnd userData w =
     (let w0 = call (DisplayUserData userData) w
      in (case updateBasicInfo pg of
            Some error \<Rightarrow> (Some error, w0)
          | None \<Rightarrow>
              (let w1 = updateStats w0
               in (case updateDetails pg of
                     Some error \<Rightarrow> (Some error, w1)
                   | None \<Rightarrow>
                       (case updateBio pg of
                          Some error \<Rightarrow> (Some error, w1)
                        | None \<Rightarrow> updateFollowButton pg rnd w1)))))"

definition toggleFollow :: "world \<Rightarrow> bool \<times> world" where
  "toggleFollow w =
     (let isCurrentlyFollowing = followBtn_Following w
      in (\<not> isCurrentlyFollowing,
          (call ToggleFollow w)\<lparr>followBtn_Following := \<not> isCurrentlyFollowing\<rparr>))"

section \<open>ProfileCardApp (js/app.js)\<close>

definition setLoadingState :: "bool \<Rightarrow> world \<Rightarrow> world" where
  "setLoadingState b w = w\<lparr>isLoading := b\<rparr>"

definition handleError :: "js_error \<Rightarrow> world \<Rightarrow> world" where
  "handleError error w =
     (let errorMessage =
            (if message error \<noteq> [] then message error
             else ''An unexpected error occurred. Please try again.'')
      in call (ShowNotification errorMessage ''error'') (call (ShowErrorState errorMessage) w))"

definition handleFollow :: "world \<Rightarrow> world" where
  "handleFollow w =
     (case currentUser w of
        None \<Rightarrow> w
      | Some cu \<Rightarrow>
          (let (isNowFollowing, w1) = toggleFollow w;
               msg = (if isNowFollowing then ''Following '' @ name cu @ '' successfully!''
                      else ''Unfollowed '' @ name cu @ '' successfully!'')
           in call (ShowNotification msg ''success'') w1))"

definition handleMessage :: "world \<Rightarrow> world" where
  "handleMessage w =
     (case currentUser w of
        None \<Rightarrow> w
      | Some cu \<Rightarrow> call (ShowMessageModal (name cu) (username cu)) w)"

text \<open>
  An \<^verbatim>\<open>async\<close> method runs up to its first pending \<^verbatim>\<open>await\<close> when it is called, and
  the rest when the awaited request is answered. The first part returns \<open>None\<close> when
  the method returned without a request, and \<open>Some k\<close> when it has just made one and
  waits to resume as \<open>k\<close>; the second part is the function named \<open>_resume\<close>, given what
  \<^verbatim>\<open>fetchUserData\<close> returned or threw. Between the two, any other event may run.
  In the second part the record is stored before it is displayed, inside the \<^verbatim>\<open>try\<close>:
  a throw of \<^verbatim>\<open>displayUserData\<close> reaches the same \<^verbatim>\<open>catch\<close> as a throw of the fetch.
  (\<^verbatim>\<open>fetchUserData\<close> awaits twice, the response and its body; the controller touches
  nothing in between, so the model answers a request once, with both.)
\<close>

definition loadRandomUser :: "(nat \<Rightarrow> draw) \<Rightarrow> world \<Rightarrow> continuation option \<times> world" where
  "loadRandomUser rnd w =
     (if isLoading w then (None, w)
      else (let w1 = setLoadingState True w;
                w2 = call ShowLoadingState w1;
                (randomUsername, w3) = getRandomUsername rnd w2
            in (Some K_loadRandomUser, fetch (fetchUserData_url randomUsername) w3)))"

definition loadRandomUser_resume :: "page \<Rightarrow> (nat \<Rightarrow> draw) \<Rightarrow> js_error + user \<Rightarrow> world \<Rightarrow> world" where
  "loadRandomUser_resume pg rnd res w =
     setLoadingState False
       (case res of
          Inr userData \<Rightarrow>
            (case displayUserData pg rnd userData (w\<lparr>currentUser := Some userData\<rparr>) of
               (None, w1) \<Rightarrow>
                 call (ShowNotification (''Loaded profile for '' @ name userData) ''success'')
                   (call ShowProfileCard w1)
             | (Some error, w1) \<Rightarrow>
                 handleError error (call (ConsoleError ''Error loading user:'' error) w1))
        | Inl error \<Rightarrow> handleError error (call (ConsoleError ''Error loading user:'' error) w))"

definition loadUser :: "jsval \<Rightarrow> world \<Rightarrow> continuation option \<times> world" where
  "loadUser u w =
     (if isLoading w then (None, w)
      else if \<not> truthy (isValidUsername u)
      then (None, call (ShowErrorState ''Please enter a valid username'') w)
      else (let w1 = setLoadingState True w;
                w2 = call ShowLoadingState w1
            in (Some K_loadUser, fetch (fetchUserData_url u) w2)))"

definition loadUser_resume :: "page \<Rightarrow> (nat \<Rightarrow> draw) \<Rightarrow> js_error + user \<Rightarrow> world \<Rightarrow> world" where
  "loadUser_resume pg rnd res w =
     setLoadingState False
       (case res of
          Inr userData \<Rightarrow>
            (case displayUserData pg rnd userData (w\<lparr>currentUser := Some userData\<rparr>) of
               (None, w1) \<Rightarrow>
                 call (ShowNotification (''Loaded profile for '' @ name userData) ''success'')
                   (call ShowProfileCard w1)
             | (Some error, w1) \<Rightarrow>
                 handleError error (call (ConsoleError ''Error loading user:'' error) w1))
        | Inl error \<Rightarrow> handleError error (call (ConsoleError ''Error loading user:'' error) w))"

definition refreshCurrentUser :: "(nat \<Rightarrow> draw) \<Rightarrow> world \<Rightarrow> continuation option \<times> world" where
  "refreshCurrentUser rnd w =
     (case currentUser w of
        None \<Rightarrow> loadRandomUser rnd w
      | Some cu \<Rightarrow>
          (Some K_refreshCurrentUser, fetch (fetchUserData_url (JStr (username cu))) w))"

definition refreshCurrentUser_resume :: "page \<Rightarrow> (nat \<Rightarrow> draw) \<Rightarrow> js_error + user \<Rightarrow> world \<Rightarrow> world" where
  "refreshCurrentUser_resume pg rnd res w =
     (case res of
        Inr userData \<Rightarrow>
          (case displayUserData pg rnd userData (w\<lparr>currentUser := Some userData\<rparr>) of
             (None, w1) \<Rightarrow>
               call (ShowNotification ''Profile refreshed successfully!'' ''success'') w1
           | (Some error, w1) \<Rightarrow> handleError error w1)
      | Inl error \<Rightarrow> handleError error w)"

definition handleRefresh :: "(nat \<Rightarrow> draw) \<Rightarrow> world \<Rightarrow> continuation option \<times> world" where
  "handleRefresh rnd w =
     (if isLoading w then (None, w)
      else (case loadRandomUser rnd (call AddRefreshButtonLoading w) of
              (None, w1) \<Rightarrow> (None, call RemoveRefreshButtonLoading w1)
            | (Some k, w1) \<Rightarrow> (Some K_handleRefresh, w1)))"

definition handleRetry :: "(nat \<Rightarrow> draw) \<Rightarrow> world \<Rightarrow> continuation option \<times> world" where
  "handleRetry rnd w = loadRandomUser rnd w"

definition resume :: "page \<Rightarrow> (nat \<Rightarrow> draw) \<Rightarrow> continuation \<Rightarrow> js_error + user \<Rightarrow> world \<Rightarrow> world" where
  "resume pg rnd k res w =
     (case k of
        K_loadRandomUser \<Rightarrow> loadRandomUser_resume pg rnd res w
      | K_loadUser \<Rightarrow> loadUser_resume pg rnd res w
      | K_refreshCurrentUser \<Rightarrow> refreshCurrentUser_resume pg rnd res w
      | K_handleRefresh \<Rightarrow> call RemoveRefreshButtonLoading (loadRandomUser_resume pg rnd res w))"

subsection \<open>The event loop\<close>

text \<open>
  What can happen to the widget: a click on one of the four buttons that
  \<^verbatim>\<open>bindEvents\<close> wires, a call of one of the three load methods of the public API, or
  the network's answer to the request numbered \<open>i\<close> (its position in \<open>requests\<close>).
  Each event runs to its next \<^verbatim>\<open>await\<close> before another one starts.
\<close>

datatype event =
    Click_refreshBtn
  | Click_retryBtn
  | Click_followBtn
  | Click_messageBtn
  | Call_loadRandomUser
  | Call_loadUser jsval
  | Call_refreshCurrentUser
  | Answer nat outcome

definition suspend :: "continuation option \<times> world \<Rightarrow> world" where
  "suspend r =
     (case r of
        (None, w) \<Rightarrow> w
      | (Some k, w) \<Rightarrow> w\<lparr>pending := pending w @ [(length (requests w) - 1, k)]\<rparr>)"

fun step :: "page \<Rightarrow> (nat \<Rightarrow> draw) \<Rightarrow> world \<Rightarrow> event \<Rightarrow> world" where
  "step pg rnd w Click_refreshBtn = suspend (handleRefresh rnd w)"
| "step pg rnd w Click_retryBtn = suspend (handleRetry rnd w)"
| "step pg rnd w Click_followBtn = handleFollow w"
| "step pg rnd w Click_messageBtn = handleMessage w"
| "step pg rnd w Call_loadRandomUser = suspend (loadRandomUser rnd w)"
| "step pg rnd w (Call_loadUser u) = suspend (loadUser u w)"
| "step pg rnd w Call_refreshCurrentUser = suspend (refreshCurrentUser rnd w)"
| "step pg rnd w (Answer i out) =
     (case map_of (pending w) i of
        None \<Rightarrow> w
      | Some k \<Rightarrow>
          resume pg rnd k (fetchUserData_resume out)
            (w\<lparr>pending := filter (\<lambda>p. fst p \<noteq> i) (pending w)\<rparr>))"

definition run :: "page \<Rightarrow> (nat \<Rightarrow> draw) \<Rightarrow> world \<Rightarrow> event list \<Rightarrow> world" where
  "run pg rnd w evs = foldl (step pg rnd) w evs"

section \<open>Notions used to state the properties\<close>

text \<open>
  An answer of the network after which the loop of \<^verbatim>\<open>fetchUserWithRetry\<close> goes on:
  \<^verbatim>\<open>fetchUserData\<close> throws, and the message of the error contains neither
  \<^verbatim>\<open>"not found"\<close> nor \<^verbatim>\<open>"rate limit"\<close>.
\<close>

definition retryable_failure :: "outcome \<Rightarrow> bool" where
  "retryable_failure out =
     (case fetchUserData_resume out of
        Inl e \<Rightarrow> \<not> includes_str (message e) ''not found'' \<and> \<not> includes_str (message e) ''rate limit''
      | Inr userData \<Rightarrow> False)"

text \<open>
  The code has no kind field. The kinds that the spec names are the five errors the
  DataSource makes itself, told apart by their messages (the last by its fixed start,
  followed by the digits of the status); an error that it passes on unchanged has no
  kind.
\<close>

datatype kind = NotFound | RateLimited | ServerError | NetworkUnreachable | Unknown

definition all_digits :: "string \<Rightarrow> bool" where
  "all_digits s = (s \<noteq> [] \<and> list_all (\<lambda>c. c \<in> set ''0123456789'') s)"

definition kind_of :: "js_error \<Rightarrow> kind option" where
  "kind_of e =
     (if e = new_Error ''User not found. Please try again.'' then Some NotFound
      else if e = new_Error ''API rate limit exceeded. Please try again later.''
      then Some RateLimited
      else if e = new_Error ''Server error. Please try again later.'' then Some ServerError
      else if e = new_Error ''Network error. Please check your internet connection.''
      then Some NetworkUnreachable
      else if error_name e = ''Error'' \<and> startsWith (message e) ''HTTP error! status: ''
              \<and> all_digits (drop 20 (message e))
      then Some Unknown
      else None)"

text \<open>The delays of the timers set in a trace, in milliseconds, oldest first.\<close>

definition timeouts :: "io_event list \<Rightarrow> nat list" where
  "timeouts io = concat (map (\<lambda>ev. case ev of Fetch url \<Rightarrow> [] | SetTimeout ms \<Rightarrow> [ms]) io)"

text \<open>
  The trace of the attempts numbered \<open>a\<close> to \<open>m\<close>: each but the last is a request
  followed by a timer of \<open>2 ^ k\<close> seconds, the last a request alone.
\<close>

definition attempts_trace :: "string \<Rightarrow> nat \<Rightarrow> nat \<Rightarrow> io_event list" where
  "attempts_trace url a m =
     concat (map (\<lambda>k. [Fetch url, SetTimeout (2 ^ k * 1000)]) [a..<m]) @ [Fetch url]"

section \<open>Concrete inputs\<close>

text \<open>A widget that has loaded nothing yet and is not loading.\<close>

definition idle_world :: world where
  "idle_world =
     \<lparr> currentUser = None, isLoading = False, effects = [], followBtn_Following = False,
       requests = [], pending = [], random_calls = 0 \<rparr>"

definition octocat_data :: data where
  "octocat_data =
     \<lparr> data_id = 583231, data_login = ''octocat'', data_name = Some ''The Octocat'',
       data_avatar_url = ''https://avatars.githubusercontent.com/u/583231'',
       data_bio = None, data_location = Some ''San Francisco'',
       data_email = None, data_company = Some ''@github'', data_blog = Some [],
       data_followers = Some 100, data_following = Some 9, data_public_repos = Some 8,
       data_created_at = ''2011-01-25T18:44:36Z'',
       data_html_url = ''https://github.com/octocat'' \<rparr>"

definition octocat_response :: response where
  "octocat_response = \<lparr> status = 200, json = Inr octocat_data \<rparr>"

definition octocat :: user where
  "octocat =
     \<lparr> id_user = 583231, username = ''octocat'', name = ''The Octocat'',
       avatar = ''https://avatars.githubusercontent.com/u/583231'',
       bio = ''No bio available'', location = ''San Francisco'',
       email = None, company = Some ''@github'', blog = None,
       followers = 100, following = 9, publicRepos = 8,
       joinDate = ''2011-01-25T18:44:36Z'', htmlUrl = ''https://github.com/octocat'' \<rparr>"

text \<open>A widget that shows the profile of \<^verbatim>\<open>octocat\<close> and is not loading.\<close>

definition loaded_world :: world where
  "loaded_world =
     \<lparr> currentUser = Some octocat, isLoading = False,
       effects = [ShowLoadingState, DisplayUserData octocat, ShowProfileCard,
                  ShowNotification ''Loaded profile for The Octocat'' ''success''],
       followBtn_Following = False,
       requests = [''https://api.github.com/users/octocat''], pending = [], random_calls = 5 \<rparr>"

text \<open>
  The same widget after \<^verbatim>\<open>loadUser("ghost")\<close> was called: loading, the request numbered
  1 not yet answered.
\<close>

definition awaiting_world :: world where
  "awaiting_world =
     \<lparr> currentUser = Some octocat, isLoading = True,
       effects = [ShowLoadingState, DisplayUserData octocat, ShowProfileCard,
                  ShowNotification ''Loaded profile for The Octocat'' ''success'',
                  ShowLoadingState],
       followBtn_Following = False,
       requests = [''https://api.github.com/users/octocat'', ''https://api.github.com/users/ghost''],
       pending = [(1, K_loadUser)], random_calls = 5 \<rparr>"

text \<open>Networks and answers: no connection; a server that always answers 500; a 404; a 502.\<close>

definition offline :: network where
  "offline k url = Rejected (JsError ''TypeError'' ''Failed to fetch'')"

definition server_down :: network where
  "server_down k url =
     Resolved \<lparr> status = 500, json = Inl (JsError ''SyntaxError'' ''Unexpected end of JSON input'') \<rparr>"

definition not_found :: response where
  "not_found = \<lparr> status = 404, json = Inl (JsError ''SyntaxError'' ''Unexpected end of JSON input'') \<rparr>"

definition bad_gateway :: response where
  "bad_gateway = \<lparr> status = 502, json = Inl (JsError ''SyntaxError'' ''Unexpected end of JSON input'') \<rparr>"

text \<open>An answer 200 whose body is not JSON, and a network that always gives it.\<close>

definition bad_body :: response where
  "bad_body = \<lparr> status = 200, json = Inl (JsError ''SyntaxError'' ''Unexpected end of JSON input'') \<rparr>"

definition garbled :: network where
  "garbled k url = Resolved bad_body"

text \<open>
  A \<^verbatim>\<open>Math.random()\<close> that always returns one half (\<open>0.5 * n\<close> is exact, and its
  floor is \<open>n div 2\<close>), and one that always returns 0.
\<close>

definition half :: "nat \<Rightarrow> draw" where
  "half k = \<lparr> floor_times = (\<lambda>n. int (n div 2)), gt_half = False \<rparr>"

definition zero :: "nat \<Rightarrow> draw" where
  "zero k = \<lparr> floor_times = (\<lambda>n. 0), gt_half = False \<rparr>"

text \<open>
  A page with every element, and the same page without the avatar; the messages are
  those of one engine.
\<close>

definition full_page :: page where
  "full_page =
     \<lparr> userAvatar = True, userName = True, userTitle = True, userLocation = True,
       userEmail = True, userCompany = True, userWebsite = True, userJoinDate = True,
       userBio = True, followBtn = True,
       null_message = (\<lambda>el. ''Cannot set properties of null'') \<rparr>"

definition no_avatar_page :: page where
  "no_avatar_page = full_page \<lparr> userAvatar := False \<rparr>"

section \<open>Properties of the DataSource\<close>

subsection \<open>Strings and errors\<close>

lemma startsWith_subset: "startsWith s p \<Longrightarrow> set p \<subseteq> set s"
  by (induction s p rule: startsWith.induct) auto

lemma includes_str_subset: "includes_str s p \<Longrightarrow> set p \<subseteq> set s"
proof (induction s)
  case Nil
  then show ?case by simp
next
  case (Cons c s)
  then show ?case using startsWith_subset [of "c # s" p] by auto
qed

lemma set_show_nat: "set (show_nat n) \<subseteq> set ''0123456789''"
proof (induction n rule: show_nat.induct)
  case (1 n)
  have digit: "''0123456789'' ! k \<in> set ''0123456789''" if "k < 10" for k
    using that nth_mem [of k "''0123456789''"] by simp
  show ?case
  proof (cases "n < 10")
    case True
    with digit [of n] show ?thesis by (subst show_nat.simps) simp
  next
    case False
    with 1 digit [of "n mod 10"] show ?thesis by (subst show_nat.simps) simp
  qed
qed

text \<open>The message for an unlisted status holds no \<open>n\<close> and no \<open>l\<close>.\<close>

lemma http_other_message_retried:
  "\<not> includes_str (''HTTP error! status: '' @ show_nat n) ''not found''"
  "\<not> includes_str (''HTTP error! status: '' @ show_nat n) ''rate limit''"
proof -
  have n: "CHR ''n'' \<notin> set (''HTTP error! status: '' @ show_nat n)"
    and l: "CHR ''l'' \<notin> set (''HTTP error! status: '' @ show_nat n)"
    using set_show_nat [of n] by auto
  show "\<not> includes_str (''HTTP error! status: '' @ show_nat n) ''not found''"
    using n includes_str_subset [of "''HTTP error! status: '' @ show_nat n" "''not found''"] by auto
  show "\<not> includes_str (''HTTP error! status: '' @ show_nat n) ''rate limit''"
    using l includes_str_subset [of "''HTTP error! status: '' @ show_nat n" "''rate limit''"] by auto
qed

lemma handleNetworkError_new_Error [simp]: "handleNetworkError (new_Error m) = new_Error m"
  by (simp add: handleNetworkError_def new_Error_def)

lemma message_new_Error [simp]: "message (new_Error m) = m"
  by (simp add: new_Error_def)

lemma isValidUsername_iff:
  "truthy (isValidUsername u) \<longleftrightarrow> (\<exists>s. u = JStr s \<and> trim s \<noteq> [])"
  by (cases u) (auto simp: isValidUsername_def trim_def)

subsection \<open>HTTP failures\<close>

text \<open>
  C3, as the code has it: of the statuses that are not 2xx, \<^verbatim>\<open>fetchUserData\<close> throws
  the fixed message for 404, for 403 and for 500 alone; every other status, the rest
  of the 5xx range included, gets \<^verbatim>\<open>HTTP error! status: \<close> followed by the status in
  decimal. The error thrown by \<^verbatim>\<open>handleHttpError\<close> passes the \<^verbatim>\<open>catch\<close> unchanged.
\<close>

theorem http_failure_message:
  "\<not> ok r \<Longrightarrow>
     (status r = 404 \<longrightarrow>
        fetchUserData_resume (Resolved r) = Inl (new_Error ''User not found. Please try again.''))
   \<and> (status r = 403 \<longrightarrow>
        fetchUserData_resume (Resolved r)
          = Inl (new_Error ''API rate limit exceeded. Please try again later.''))
   \<and> (status r = 500 \<longrightarrow>
        fetchUserData_resume (Resolved r) = Inl (new_Error ''Server error. Please try again later.''))
   \<and> (status r \<noteq> 404 \<and> status r \<noteq> 403 \<and> status r \<noteq> 500 \<longrightarrow>
        fetchUserData_resume (Resolved r)
          = Inl (new_Error (''HTTP error! status: '' @ show_nat (status r))))"
  by (simp add: fetchUserData_resume_def handleHttpError_def)

text \<open>A 404 answer is not 2xx and yields the message for a user that was not found.\<close>

theorem http_failure_message_witness:
  "\<not> ok not_found
   \<and> fetchUserData_resume (Resolved not_found)
       = Inl (new_Error ''User not found. Please try again.'')"
proof -
  have h: "\<not> ok not_found" by (simp add: not_found_def ok_def)
  show ?thesis using h http_failure_message [OF h] by (simp add: not_found_def)
qed

text \<open>
  C3 as stated fails at status 502: it is in the 5xx range, and the error thrown is
  the one for an unlisted status, not the server error.
\<close>

theorem status_502_counterexample:
  "status bad_gateway = 502 \<and> \<not> ok bad_gateway
   \<and> fetchUserData_resume (Resolved bad_gateway) = Inl (new_Error ''HTTP error! status: 502'')
   \<and> fetchUserData_resume (Resolved bad_gateway)
        \<noteq> Inl (new_Error ''Server error. Please try again later.'')"
  by (simp add: bad_gateway_def ok_def fetchUserData_resume_def handleHttpError_def
      handleNetworkError_def show_nat.simps new_Error_def)

subsection \<open>Normalisation of the payload\<close>

text \<open>
  C7: on a successful fetch (a 2xx answer whose body parses to the payload \<open>d\<close>) the
  record returned has the fallback for each missing field: a missing or empty
  \<^verbatim>\<open>bio\<close> reads \<^verbatim>\<open>No bio available\<close>, a missing or empty \<^verbatim>\<open>location\<close> reads
  \<^verbatim>\<open>Location not specified\<close>, a missing or empty \<^verbatim>\<open>name\<close> is the handle, and a
  missing or empty \<^verbatim>\<open>email\<close>, \<^verbatim>\<open>company\<close> or \<^verbatim>\<open>blog\<close> is \<^verbatim>\<open>null\<close>. So each of the
  three optional fields is \<^verbatim>\<open>null\<close> or a non-empty string, never the empty string,
  and a field that is present and not empty is kept.
\<close>

theorem processUserData_fallbacks:
  "ok r \<Longrightarrow> json r = Inr d \<Longrightarrow>
   \<exists>u. fetchUserData_resume (Resolved r) = Inr u
     \<and> (data_bio d = None \<or> data_bio d = Some [] \<longrightarrow> bio u = ''No bio available'')
     \<and> (data_location d = None \<or> data_location d = Some [] \<longrightarrow> location u = ''Location not specified'')
     \<and> (data_name d = None \<or> data_name d = Some [] \<longrightarrow> name u = data_login d \<and> name u = username u)
     \<and> (data_email d = None \<or> data_email d = Some [] \<longrightarrow> email u = None)
     \<and> (data_company d = None \<or> data_company d = Some [] \<longrightarrow> company u = None)
     \<and> (data_blog d = None \<or> data_blog d = Some [] \<longrightarrow> blog u = None)
     \<and> (email u = None \<or> (\<exists>s. email u = Some s \<and> s \<noteq> []))
     \<and> (company u = None \<or> (\<exists>s. company u = Some s \<and> s \<noteq> []))
     \<and> (blog u = None \<or> (\<exists>s. blog u = Some s \<and> s \<noteq> []))
     \<and> bio u \<noteq> [] \<and> location u \<noteq> []
     \<and> (\<forall>s. s \<noteq> [] \<longrightarrow>
           (data_bio d = Some s \<longrightarrow> bio u = s) \<and> (data_location d = Some s \<longrightarrow> location u = s)
         \<and> (data_name d = Some s \<longrightarrow> name u = s) \<and> (data_email d = Some s \<longrightarrow> email u = Some s)
         \<and> (data_company d = Some s \<longrightarrow> company u = Some s) \<and> (data_blog d = Some s \<longrightarrow> blog u = Some s))"
  by (cases "data_bio d"; cases "data_location d"; cases "data_email d"; cases "data_company d";
      cases "data_blog d")
     (auto simp: fetchUserData_resume_def processUserData_def)

text \<open>
  A payload with \<^verbatim>\<open>bio\<close> and \<^verbatim>\<open>email\<close> \<^verbatim>\<open>null\<close> and an empty \<^verbatim>\<open>blog\<close>: the record has
  the placeholder for the first and \<^verbatim>\<open>null\<close> for the other two.
\<close>

theorem processUserData_fallbacks_witness:
  "ok octocat_response \<and> json octocat_response = Inr octocat_data
   \<and> (\<exists>u. fetchUserData_resume (Resolved octocat_response) = Inr u
        \<and> bio u = ''No bio available'' \<and> email u = None \<and> blog u = None
        \<and> company u = Some ''@github'' \<and> name u = ''The Octocat'')"
proof -
  have h1: "ok octocat_response" by (simp add: octocat_response_def ok_def)
  have h2: "json octocat_response = Inr octocat_data" by (simp add: octocat_response_def)
  show ?thesis
    using h1 h2 processUserData_fallbacks [OF h1 h2]
    by (auto simp: octocat_data_def)
qed

subsection \<open>The retry loop\<close>

lemma fetch_count_simps [simp]:
  "fetch_count [] = 0"
  "fetch_count (io @ io') = fetch_count io + fetch_count io'"
  "fetch_count (Fetch url # io) = Suc (fetch_count io)"
  "fetch_count (SetTimeout ms # io) = fetch_count io"
  by (simp_all add: fetch_count_def is_Fetch_def)

lemma timeouts_simps [simp]:
  "timeouts [] = []"
  "timeouts (io @ io') = timeouts io @ timeouts io'"
  "timeouts (Fetch url # io) = timeouts io"
  "timeouts (SetTimeout ms # io) = ms # timeouts io"
  by (simp_all add: timeouts_def)

lemma attempts_trace_same [simp]: "attempts_trace url a a = [Fetch url]"
  by (simp add: attempts_trace_def)

lemma attempts_trace_step:
  "a < m \<Longrightarrow> attempts_trace url a m = Fetch url # SetTimeout (2 ^ a * 1000) # attempts_trace url (Suc a) m"
  by (simp add: attempts_trace_def upt_conv_Cons)

lemma fetch_count_attempts_trace [simp]:
  "a \<le> m \<Longrightarrow> fetch_count (attempts_trace url a m) = Suc (m - a)"
proof (induction "m - a" arbitrary: a)
  case 0
  then show ?case by simp
next
  case (Suc d)
  then have "a < m" by simp
  with Suc show ?case by (simp add: attempts_trace_step Suc_diff_Suc)
qed

lemma timeouts_attempts_trace [simp]:
  "timeouts (attempts_trace url a m) = map (\<lambda>k. 2 ^ k * 1000) [a..<m]"
proof (induction "m - a" arbitrary: a)
  case 0
  then show ?case by (simp add: attempts_trace_def)
next
  case (Suc d)
  then have "a < m" by simp
  with Suc show ?case by (simp add: attempts_trace_step upt_conv_Cons)
qed

text \<open>One round of the loop, by what the attempt came to.\<close>

lemma retry_loop_done:
  "n < a \<Longrightarrow> retry_loop net u n a lastError io = (Inl lastError, io)"
  by (simp add: retry_loop.simps)

lemma retry_loop_success:
  "a \<le> n \<Longrightarrow> fetchUserData_resume (net (fetch_count io) (fetchUserData_url u)) = Inr userData \<Longrightarrow>
   retry_loop net u n a lastError io = (Inr userData, io @ [Fetch (fetchUserData_url u)])"
  by (subst retry_loop.simps) (simp add: fetchUserData_def)

lemma retry_loop_no_retry:
  "a \<le> n \<Longrightarrow> fetchUserData_resume (net (fetch_count io) (fetchUserData_url u)) = Inl e \<Longrightarrow>
   includes_str (message e) ''not found'' \<or> includes_str (message e) ''rate limit'' \<Longrightarrow>
   retry_loop net u n a lastError io = (Inl (Some e), io @ [Fetch (fetchUserData_url u)])"
  by (subst retry_loop.simps) (simp add: fetchUserData_def)

lemma retry_loop_retry:
  "a \<le> n \<Longrightarrow> fetchUserData_resume (net (fetch_count io) (fetchUserData_url u)) = Inl e \<Longrightarrow>
   \<not> includes_str (message e) ''not found'' \<Longrightarrow> \<not> includes_str (message e) ''rate limit'' \<Longrightarrow>
   retry_loop net u n a lastError io =
     retry_loop net u n (Suc a) (Some e)
       (if a < n then io @ [Fetch (fetchUserData_url u), SetTimeout (2 ^ a * 1000)]
        else io @ [Fetch (fetchUserData_url u)])"
  by (subst retry_loop.simps) (simp add: fetchUserData_def)

lemma retryable_failureE:
  assumes "retryable_failure out"
  obtains e where "fetchUserData_resume out = Inl e"
    "\<not> includes_str (message e) ''not found''" "\<not> includes_str (message e) ''rate limit''"
  using assms by (auto simp: retryable_failure_def split: sum.splits)

lemma attempt_cases:
  obtains (success) userData where "fetchUserData_resume out = Inr userData"
  | (no_retry) e where "fetchUserData_resume out = Inl e"
      "includes_str (message e) ''not found'' \<or> includes_str (message e) ''rate limit''"
  | (retry) e where "fetchUserData_resume out = Inl e" "retryable_failure out"
      "\<not> includes_str (message e) ''not found''" "\<not> includes_str (message e) ''rate limit''"
  by (cases "fetchUserData_resume out") (auto simp: retryable_failure_def)

lemma retry_loop_trace:
  "a \<le> n \<Longrightarrow>
   \<exists>m. a \<le> m \<and> m \<le> n \<and>
     snd (retry_loop net u n a lastError io) = io @ attempts_trace (fetchUserData_url u) a m"
proof (induction "n - a" arbitrary: a lastError io)
  case 0
  then have an: "a = n" by simp
  show ?case
  proof (cases "net (fetch_count io) (fetchUserData_url u)" rule: attempt_cases)
    case (success userData)
    with an show ?thesis by (auto simp: retry_loop_success)
  next
    case (no_retry e)
    with an show ?thesis by (auto simp: retry_loop_no_retry)
  next
    case (retry e)
    with an show ?thesis by (auto simp: retry_loop_retry retry_loop_done)
  qed
next
  case (Suc d)
  then have lt: "a < n" and d: "d = n - Suc a" and le: "Suc a \<le> n" by simp_all
  show ?case
  proof (cases "net (fetch_count io) (fetchUserData_url u)" rule: attempt_cases)
    case (success userData)
    with lt have "snd (retry_loop net u n a lastError io) = io @ attempts_trace (fetchUserData_url u) a a"
      by (simp add: retry_loop_success)
    with lt show ?thesis by (intro exI [of _ a]) simp
  next
    case (no_retry e)
    with lt have "snd (retry_loop net u n a lastError io) = io @ attempts_trace (fetchUserData_url u) a a"
      by (simp add: retry_loop_no_retry)
    with lt show ?thesis by (intro exI [of _ a]) simp
  next
    case (retry e)
    from Suc.hyps(1) [OF d le]
    obtain m where m: "Suc a \<le> m" "m \<le> n"
      "snd (retry_loop net u n (Suc a) (Some e)
              (io @ [Fetch (fetchUserData_url u), SetTimeout (2 ^ a * 1000)]))
         = (io @ [Fetch (fetchUserData_url u), SetTimeout (2 ^ a * 1000)])
             @ attempts_trace (fetchUserData_url u) (Suc a) m"
      by blast
    from m(1) have "a < m" by simp
    with retry lt m show ?thesis
      by (intro exI [of _ m]) (simp add: retry_loop_retry attempts_trace_step)
  qed
qed

lemma retry_loop_all_fail:
  "a \<le> n \<Longrightarrow>
   (\<forall>k \<le> n - a. retryable_failure (net (fetch_count io + k) (fetchUserData_url u))) \<Longrightarrow>
   \<exists>e. fetchUserData_resume (net (fetch_count io + (n - a)) (fetchUserData_url u)) = Inl e
     \<and> retry_loop net u n a lastError io
         = (Inl (Some e), io @ attempts_trace (fetchUserData_url u) a n)"
proof (induction "n - a" arbitrary: a lastError io)
  case 0
  then have an: "a = n" by simp
  from 0 have "retryable_failure (net (fetch_count io) (fetchUserData_url u))" by simp
  then obtain e where e: "fetchUserData_resume (net (fetch_count io) (fetchUserData_url u)) = Inl e"
    "\<not> includes_str (message e) ''not found''" "\<not> includes_str (message e) ''rate limit''"
    by (rule retryable_failureE)
  with an show ?case by (simp add: retry_loop_retry retry_loop_done)
next
  case (Suc d)
  then have lt: "a < n" and d: "d = n - Suc a" and le: "Suc a \<le> n" by simp_all
  from Suc.prems(2) have "retryable_failure (net (fetch_count io + 0) (fetchUserData_url u))"
    by blast
  then obtain e where e: "fetchUserData_resume (net (fetch_count io) (fetchUserData_url u)) = Inl e"
    "\<not> includes_str (message e) ''not found''" "\<not> includes_str (message e) ''rate limit''"
    by (auto elim: retryable_failureE)
  let ?io1 = "io @ [Fetch (fetchUserData_url u), SetTimeout (2 ^ a * 1000)]"
  have rest: "\<forall>k \<le> n - Suc a. retryable_failure (net (fetch_count ?io1 + k) (fetchUserData_url u))"
  proof (intro allI impI)
    fix k assume "k \<le> n - Suc a"
    with lt have "Suc k \<le> n - a" by simp
    with Suc.prems(2) have "retryable_failure (net (fetch_count io + Suc k) (fetchUserData_url u))"
      by blast
    then show "retryable_failure (net (fetch_count ?io1 + k) (fetchUserData_url u))" by simp
  qed
  from Suc.hyps(1) [OF d le rest, of "Some e"]
  obtain e' where e': "fetchUserData_resume (net (fetch_count ?io1 + (n - Suc a)) (fetchUserData_url u)) = Inl e'"
    "retry_loop net u n (Suc a) (Some e) ?io1 = (Inl (Some e'), ?io1 @ attempts_trace (fetchUserData_url u) (Suc a) n)"
    by blast
  from lt have idx: "fetch_count ?io1 + (n - Suc a) = fetch_count io + (n - a)" by simp
  from e e' lt idx show ?case
    by (simp add: retry_loop_retry attempts_trace_step)
qed

lemma retry_loop_only_retries_retryable:
  "fetch_count io + k + 1 < fetch_count (snd (retry_loop net u n a lastError io)) \<Longrightarrow>
   retryable_failure (net (fetch_count io + k) (fetchUserData_url u))"
proof (induction k arbitrary: a lastError io)
  case 0
  show ?case
  proof (cases "a \<le> n")
    case False
    with 0 show ?thesis by (simp add: retry_loop_done)
  next
    case True
    show ?thesis
    proof (cases "net (fetch_count io) (fetchUserData_url u)" rule: attempt_cases)
      case (success userData)
      with True 0 show ?thesis by (simp add: retry_loop_success)
    next
      case (no_retry e)
      with True 0 show ?thesis by (simp add: retry_loop_no_retry)
    next
      case (retry e)
      then show ?thesis by simp
    qed
  qed
next
  case (Suc k)
  show ?case
  proof (cases "a \<le> n")
    case False
    with Suc.prems show ?thesis by (simp add: retry_loop_done)
  next
    case True
    show ?thesis
    proof (cases "net (fetch_count io) (fetchUserData_url u)" rule: attempt_cases)
      case (success userData)
      with True Suc.prems show ?thesis by (simp add: retry_loop_success)
    next
      case (no_retry e)
      with True Suc.prems show ?thesis by (simp add: retry_loop_no_retry)
    next
      case (retry e)
      let ?io1 = "if a < n then io @ [Fetch (fetchUserData_url u), SetTimeout (2 ^ a * 1000)]
                  else io @ [Fetch (fetchUserData_url u)]"
      have c: "fetch_count ?io1 = Suc (fetch_count io)" by simp
      have eq: "retry_loop net u n a lastError io = retry_loop net u n (Suc a) (Some e) ?io1"
        using True retry(1,3,4) by (rule retry_loop_retry)
      from Suc.prems
      have "fetch_count ?io1 + k + 1 < fetch_count (snd (retry_loop net u n (Suc a) (Some e) ?io1))"
        unfolding eq c by simp
      from Suc.IH [OF this] show ?thesis unfolding c by simp
    qed
  qed
qed

lemma retry_loop_stops_at_no_retry:
  "a + j \<le> n \<Longrightarrow>
   (\<forall>k < j. retryable_failure (net (fetch_count io + k) (fetchUserData_url u))) \<Longrightarrow>
   fetchUserData_resume (net (fetch_count io + j) (fetchUserData_url u)) = Inl e \<Longrightarrow>
   includes_str (message e) ''not found'' \<or> includes_str (message e) ''rate limit'' \<Longrightarrow>
   retry_loop net u n a lastError io
     = (Inl (Some e), io @ attempts_trace (fetchUserData_url u) a (a + j))"
proof (induction j arbitrary: a lastError io)
  case 0
  then show ?case by (simp add: retry_loop_no_retry)
next
  case (Suc j)
  then have lt: "a < n" and le: "Suc a + j \<le> n" by simp_all
  from Suc.prems(2) have "retryable_failure (net (fetch_count io + 0) (fetchUserData_url u))"
    by blast
  then obtain e0 where e0: "fetchUserData_resume (net (fetch_count io) (fetchUserData_url u)) = Inl e0"
    "\<not> includes_str (message e0) ''not found''" "\<not> includes_str (message e0) ''rate limit''"
    by (auto elim: retryable_failureE)
  let ?io1 = "io @ [Fetch (fetchUserData_url u), SetTimeout (2 ^ a * 1000)]"
  have rest: "\<forall>k < j. retryable_failure (net (fetch_count ?io1 + k) (fetchUserData_url u))"
  proof (intro allI impI)
    fix k assume "k < j"
    then have "Suc k < Suc j" by simp
    with Suc.prems(2) have "retryable_failure (net (fetch_count io + Suc k) (fetchUserData_url u))"
      by blast
    then show "retryable_failure (net (fetch_count ?io1 + k) (fetchUserData_url u))" by simp
  qed
  have fin: "fetchUserData_resume (net (fetch_count ?io1 + j) (fetchUserData_url u)) = Inl e"
    using Suc.prems(3) by simp
  from Suc.IH [OF le rest fin Suc.prems(4), of "Some e0"] e0 lt
  show ?case by (simp add: retry_loop_retry attempts_trace_step)
qed

text \<open>Which answers the loop retries, by what \<^verbatim>\<open>fetchUserData\<close> makes of them.\<close>

lemma retryable_failure_http:
  "\<not> ok r \<Longrightarrow> retryable_failure (Resolved r) \<longleftrightarrow> status r \<noteq> 404 \<and> status r \<noteq> 403"
  using http_other_message_retried [of "status r"]
  by (simp add: retryable_failure_def fetchUserData_resume_def handleHttpError_def)

lemma retryable_failure_network:
  "error_name e = ''TypeError'' \<Longrightarrow> includes_str (message e) ''fetch'' \<Longrightarrow>
   retryable_failure (Rejected e)"
  by (simp add: retryable_failure_def fetchUserData_resume_def handleNetworkError_def)

lemma no_retry_http:
  "status r = 404 \<or> status r = 403 \<Longrightarrow>
   \<exists>e. fetchUserData_resume (Resolved r) = Inl e
     \<and> (includes_str (message e) ''not found'' \<or> includes_str (message e) ''rate limit'')"
  by (auto simp: fetchUserData_resume_def handleHttpError_def ok_def)

lemma retryable_server_down: "retryable_failure (server_down k url)"
  by (simp add: server_down_def retryable_failure_http ok_def)

lemma sum_list_upt: "sum_list (map f [a..<b]) = (\<Sum>k = a..<b. f k)"
  by (simp add: interv_sum_list_conv_sum_set_nat)

lemma sum_pow2: "1 \<le> n \<Longrightarrow> (\<Sum>k = 1..<n. (2::nat) ^ k) = 2 ^ n - 2"
proof (induction n)
  case 0
  then show ?case by simp
next
  case (Suc n)
  show ?case
  proof (cases "n = 0")
    case True
    then show ?thesis by simp
  next
    case False
    then have "1 \<le> n" by simp
    moreover have "(2::nat) \<le> 2 ^ n" using \<open>1 \<le> n\<close> self_le_power [of 2 n] by simp
    ultimately show ?thesis using Suc.IH by simp
  qed
qed

text \<open>Kinds: which the DataSource's own errors have, and which the loop retries.\<close>

lemma startsWith_append: "startsWith s p \<Longrightarrow> \<exists>d. s = p @ d \<and> d = drop (length p) s"
  by (induction s p rule: startsWith.induct) auto

lemma show_nat_not_Nil: "show_nat n \<noteq> []"
  by (subst show_nat.simps) simp

lemma all_digits_show_nat: "all_digits (show_nat n)"
proof -
  have "\<forall>c \<in> set (show_nat n). c \<in> set ''0123456789''"
    using set_show_nat [of n] by blast
  with show_nat_not_Nil [of n] show ?thesis
    unfolding all_digits_def list_all_iff by blast
qed

lemma no_n_not_found: "CHR ''n'' \<notin> set s \<Longrightarrow> \<not> includes_str s ''not found''"
  using includes_str_subset [of s "''not found''"] by auto

lemma no_l_rate_limit: "CHR ''l'' \<notin> set s \<Longrightarrow> \<not> includes_str s ''rate limit''"
  using includes_str_subset [of s "''rate limit''"] by auto

lemma kind_of_fixed:
  "kind_of (new_Error ''User not found. Please try again.'') = Some NotFound"
  "kind_of (new_Error ''API rate limit exceeded. Please try again later.'') = Some RateLimited"
  "kind_of (new_Error ''Server error. Please try again later.'') = Some ServerError"
  "kind_of (new_Error ''Network error. Please check your internet connection.'')
     = Some NetworkUnreachable"
  by (simp_all add: kind_of_def new_Error_def)

lemma kind_of_other_status:
  "kind_of (new_Error (''HTTP error! status: '' @ show_nat n)) = Some Unknown"
  using all_digits_show_nat [of n] by (simp add: kind_of_def new_Error_def)

lemma handleNetworkError_handleHttpError:
  "handleNetworkError (handleHttpError s) = handleHttpError s"
  by (simp add: handleHttpError_def)

lemma kind_of_handleHttpError:
  "kind_of (handleHttpError s)
     = Some (if s = 404 then NotFound else if s = 403 then RateLimited
             else if s = 500 then ServerError else Unknown)"
proof -
  consider "s = 404" | "s = 403" | "s = 500" | "s \<noteq> 404" "s \<noteq> 403" "s \<noteq> 500"
    by blast
  then show ?thesis
  proof cases
    case 1
    have "handleHttpError 404 = new_Error ''User not found. Please try again.''"
      by (simp add: handleHttpError_def)
    with 1 show ?thesis by (simp only: kind_of_fixed) simp
  next
    case 2
    have "handleHttpError 403 = new_Error ''API rate limit exceeded. Please try again later.''"
      by (simp add: handleHttpError_def)
    with 2 show ?thesis by (simp only: kind_of_fixed) simp
  next
    case 3
    have "handleHttpError 500 = new_Error ''Server error. Please try again later.''"
      by (simp add: handleHttpError_def)
    with 3 show ?thesis by (simp only: kind_of_fixed) simp
  next
    case 4
    then have "handleHttpError s = new_Error (''HTTP error! status: '' @ show_nat s)"
      by (simp add: handleHttpError_def)
    then have "kind_of (handleHttpError s) = Some Unknown"
      by (simp only: kind_of_other_status)
    with 4 show ?thesis by simp
  qed
qed

lemma kind_of_http:
  "\<not> ok r \<Longrightarrow>
   \<exists>e. fetchUserData_resume (Resolved r) = Inl e
     \<and> kind_of e = Some (if status r = 404 then NotFound
                          else if status r = 403 then RateLimited
                          else if status r = 500 then ServerError else Unknown)"
proof -
  assume "\<not> ok r"
  then have "fetchUserData_resume (Resolved r) = Inl (handleHttpError (status r))"
    by (simp add: fetchUserData_resume_def handleNetworkError_handleHttpError)
  with kind_of_handleHttpError [of "status r"] show ?thesis by blast
qed

lemma kind_of_network:
  "error_name e = ''TypeError'' \<Longrightarrow> includes_str (message e) ''fetch'' \<Longrightarrow>
   \<exists>e'. fetchUserData_resume (Rejected e) = Inl e' \<and> kind_of e' = Some NetworkUnreachable"
  by (simp add: fetchUserData_resume_def handleNetworkError_def kind_of_fixed)

lemma kind_of_cases:
  assumes "kind_of e = Some k"
  obtains (NotFound) "k = NotFound" "e = new_Error ''User not found. Please try again.''"
  | (RateLimited) "k = RateLimited"
      "e = new_Error ''API rate limit exceeded. Please try again later.''"
  | (ServerError) "k = ServerError" "e = new_Error ''Server error. Please try again later.''"
  | (NetworkUnreachable) "k = NetworkUnreachable"
      "e = new_Error ''Network error. Please check your internet connection.''"
  | (Unknown) "k = Unknown" "startsWith (message e) ''HTTP error! status: ''"
      "all_digits (drop 20 (message e))"
  using assms by (auto simp: kind_of_def split: if_splits)

lemma retried_kinds:
  assumes "kind_of e = Some ServerError \<or> kind_of e = Some NetworkUnreachable
           \<or> kind_of e = Some Unknown"
  shows "\<not> includes_str (message e) ''not found'' \<and> \<not> includes_str (message e) ''rate limit''"
proof -
  from assms obtain k where k: "kind_of e = Some k" "k = ServerError \<or> k = NetworkUnreachable \<or> k = Unknown"
    by blast
  from k(1) show ?thesis
  proof (cases rule: kind_of_cases)
    case NotFound
    with k(2) show ?thesis by simp
  next
    case RateLimited
    with k(2) show ?thesis by simp
  next
    case ServerError
    then show ?thesis by simp
  next
    case NetworkUnreachable
    then show ?thesis by simp
  next
    case Unknown
    from startsWith_append [OF Unknown(2)]
    obtain d where m: "message e = ''HTTP error! status: '' @ d"
      and d: "d = drop (length ''HTTP error! status: '') (message e)"
      by blast
    have "length ''HTTP error! status: '' = 20" by simp
    with d have "d = drop 20 (message e)" by (simp only:)
    with Unknown(3) have "set d \<subseteq> set ''0123456789''"
      unfolding all_digits_def list_all_iff by blast
    then have n: "CHR ''n'' \<notin> set (''HTTP error! status: '' @ d)"
      and l: "CHR ''l'' \<notin> set (''HTTP error! status: '' @ d)"
      by auto
    from n have "\<not> includes_str (''HTTP error! status: '' @ d) ''not found''"
      by (rule no_n_not_found)
    moreover from l have "\<not> includes_str (''HTTP error! status: '' @ d) ''rate limit''"
      by (rule no_l_rate_limit)
    ultimately show ?thesis unfolding m by blast
  qed
qed

lemma terminal_kinds:
  assumes "kind_of e = Some NotFound \<or> kind_of e = Some RateLimited"
  shows "includes_str (message e) ''not found'' \<or> includes_str (message e) ''rate limit''"
proof -
  from assms obtain k where k: "kind_of e = Some k" "k = NotFound \<or> k = RateLimited"
    by blast
  from k(1) show ?thesis
    by (cases rule: kind_of_cases) (use k(2) in simp_all)
qed

text \<open>A retried failure with attempts left is followed by another attempt.\<close>

lemma retry_loop_attempts_once:
  "a \<le> n \<Longrightarrow> fetch_count io < fetch_count (snd (retry_loop net u n a lastError io))"
  using retry_loop_trace [of a n net u lastError io] by auto

lemma retry_loop_continues:
  "a + j < n \<Longrightarrow>
   (\<forall>k \<le> j. retryable_failure (net (fetch_count io + k) (fetchUserData_url u))) \<Longrightarrow>
   fetch_count io + j + 1 < fetch_count (snd (retry_loop net u n a lastError io))"
proof (induction j arbitrary: a lastError io)
  case 0
  then have lt: "a < n" by simp
  from 0 have "retryable_failure (net (fetch_count io) (fetchUserData_url u))" by simp
  then obtain e where e: "fetchUserData_resume (net (fetch_count io) (fetchUserData_url u)) = Inl e"
    "\<not> includes_str (message e) ''not found''" "\<not> includes_str (message e) ''rate limit''"
    by (rule retryable_failureE)
  let ?io1 = "io @ [Fetch (fetchUserData_url u), SetTimeout (2 ^ a * 1000)]"
  from lt have "fetch_count ?io1 < fetch_count (snd (retry_loop net u n (Suc a) (Some e) ?io1))"
    by (intro retry_loop_attempts_once) simp
  with e lt show ?case by (simp add: retry_loop_retry)
next
  case (Suc j)
  then have lt: "a < n" and le: "Suc a + j < n" by simp_all
  from Suc.prems(2) have "retryable_failure (net (fetch_count io + 0) (fetchUserData_url u))"
    by blast
  then obtain e where e: "fetchUserData_resume (net (fetch_count io) (fetchUserData_url u)) = Inl e"
    "\<not> includes_str (message e) ''not found''" "\<not> includes_str (message e) ''rate limit''"
    by (auto elim: retryable_failureE)
  let ?io1 = "io @ [Fetch (fetchUserData_url u), SetTimeout (2 ^ a * 1000)]"
  have rest: "\<forall>k \<le> j. retryable_failure (net (fetch_count ?io1 + k) (fetchUserData_url u))"
  proof (intro allI impI)
    fix k assume "k \<le> j"
    then have "Suc k \<le> Suc j" by simp
    with Suc.prems(2) have "retryable_failure (net (fetch_count io + Suc k) (fetchUserData_url u))"
      by blast
    then show "retryable_failure (net (fetch_count ?io1 + k) (fetchUserData_url u))" by simp
  qed
  from Suc.IH [OF le rest, of "Some e"] e lt
  show ?case by (simp add: retry_loop_retry)
qed

text \<open>
  C5, as the code has it: for a bound \<open>n\<close> of at least 1, \<^verbatim>\<open>fetchUserWithRetry\<close> makes
  at most \<open>n\<close> requests. It makes a further attempt after a failure, while attempts
  are left, exactly when the message of the error names neither \<^verbatim>\<open>not found\<close> nor
  \<^verbatim>\<open>rate limit\<close>. Every failure of kind ServerError, NetworkUnreachable or Unknown is
  such a failure, and none of kind NotFound or RateLimited is; an HTTP failure has the
  kind of its status (404, 403, 500, any other), a failed \<^verbatim>\<open>fetch\<close> has
  NetworkUnreachable. The test is on the message, not on a kind: an error of no kind
  passes it too. A 404 or 403 on the first attempt is thrown again at once, after
  exactly one request, and so is the first such failure after retried ones. When all
  \<open>n\<close> attempts fail and are retried, \<open>n\<close> requests are made and the error thrown is
  that of the last attempt.
\<close>

theorem fetchUserWithRetry_attempts:
  "1 \<le> n \<Longrightarrow>
     fetch_count (snd (fetchUserWithRetry net u n io)) \<le> fetch_count io + n
   \<and> (\<forall>k. fetch_count io + k + 1 < fetch_count (snd (fetchUserWithRetry net u n io)) \<longrightarrow>
          retryable_failure (net (fetch_count io + k) (fetchUserData_url u)))
   \<and> (\<forall>j. j + 1 < n
            \<and> (\<forall>k \<le> j. retryable_failure (net (fetch_count io + k) (fetchUserData_url u))) \<longrightarrow>
          fetch_count io + j + 1 < fetch_count (snd (fetchUserWithRetry net u n io)))
   \<and> (\<forall>out e. fetchUserData_resume out = Inl e
            \<and> (kind_of e = Some ServerError \<or> kind_of e = Some NetworkUnreachable
                 \<or> kind_of e = Some Unknown) \<longrightarrow>
          retryable_failure out)
   \<and> (\<forall>out e. fetchUserData_resume out = Inl e
            \<and> (kind_of e = Some NotFound \<or> kind_of e = Some RateLimited) \<longrightarrow>
          \<not> retryable_failure out)
   \<and> (\<forall>r. \<not> ok r \<longrightarrow>
          (\<exists>e. fetchUserData_resume (Resolved r) = Inl e
             \<and> kind_of e = Some (if status r = 404 then NotFound
                                  else if status r = 403 then RateLimited
                                  else if status r = 500 then ServerError else Unknown)))
   \<and> (\<forall>e. error_name e = ''TypeError'' \<and> includes_str (message e) ''fetch'' \<longrightarrow>
          (\<exists>e'. fetchUserData_resume (Rejected e) = Inl e'
             \<and> kind_of e' = Some NetworkUnreachable))
   \<and> (\<forall>r. \<not> ok r \<longrightarrow> (retryable_failure (Resolved r) \<longleftrightarrow> status r \<noteq> 404 \<and> status r \<noteq> 403))
   \<and> (\<forall>e. error_name e = ''TypeError'' \<and> includes_str (message e) ''fetch'' \<longrightarrow>
          retryable_failure (Rejected e))
   \<and> (\<forall>r. net (fetch_count io) (fetchUserData_url u) = Resolved r
            \<and> (status r = 404 \<or> status r = 403) \<longrightarrow>
          fetchUserWithRetry net u n io
            = (Inl (Some (handleHttpError (status r))), io @ [Fetch (fetchUserData_url u)]))
   \<and> (\<forall>j e. j < n
            \<and> (\<forall>k < j. retryable_failure (net (fetch_count io + k) (fetchUserData_url u)))
            \<and> fetchUserData_resume (net (fetch_count io + j) (fetchUserData_url u)) = Inl e
            \<and> (includes_str (message e) ''not found'' \<or> includes_str (message e) ''rate limit'') \<longrightarrow>
          fst (fetchUserWithRetry net u n io) = Inl (Some e)
          \<and> fetch_count (snd (fetchUserWithRetry net u n io)) = fetch_count io + j + 1)
   \<and> ((\<forall>k < n. retryable_failure (net (fetch_count io + k) (fetchUserData_url u))) \<longrightarrow>
          (\<exists>e. fetchUserData_resume (net (fetch_count io + (n - 1)) (fetchUserData_url u)) = Inl e
             \<and> fst (fetchUserWithRetry net u n io) = Inl (Some e))
          \<and> fetch_count (snd (fetchUserWithRetry net u n io)) = fetch_count io + n)"
proof (intro conjI allI impI)
  assume n: "1 \<le> n"
  let ?url = "fetchUserData_url u"
  let ?run = "fetchUserWithRetry net u n io"
  from retry_loop_trace [OF n, of net u None io]
  obtain m where m: "1 \<le> m" "m \<le> n" "snd ?run = io @ attempts_trace ?url 1 m"
    by (auto simp: fetchUserWithRetry_def)
  then show "fetch_count (snd ?run) \<le> fetch_count io + n" by simp
  show "retryable_failure (net (fetch_count io + k) ?url)"
    if "fetch_count io + k + 1 < fetch_count (snd ?run)" for k
    using that unfolding fetchUserWithRetry_def by (rule retry_loop_only_retries_retryable)
  show "fetch_count io + j + 1 < fetch_count (snd ?run)"
    if "j + 1 < n \<and> (\<forall>k \<le> j. retryable_failure (net (fetch_count io + k) ?url))" for j
    using that unfolding fetchUserWithRetry_def by (intro retry_loop_continues) simp_all
  show "retryable_failure out"
    if "fetchUserData_resume out = Inl e
        \<and> (kind_of e = Some ServerError \<or> kind_of e = Some NetworkUnreachable
             \<or> kind_of e = Some Unknown)" for out e
    using that retried_kinds [of e] by (auto simp: retryable_failure_def)
  show "\<not> retryable_failure out"
    if "fetchUserData_resume out = Inl e
        \<and> (kind_of e = Some NotFound \<or> kind_of e = Some RateLimited)" for out e
    using that terminal_kinds [of e] by (auto simp: retryable_failure_def)
  show "\<exists>e. fetchUserData_resume (Resolved r) = Inl e
          \<and> kind_of e = Some (if status r = 404 then NotFound
                               else if status r = 403 then RateLimited
                               else if status r = 500 then ServerError else Unknown)"
    if "\<not> ok r" for r
    using that by (rule kind_of_http)
  show "\<exists>e'. fetchUserData_resume (Rejected e) = Inl e' \<and> kind_of e' = Some NetworkUnreachable"
    if "error_name e = ''TypeError'' \<and> includes_str (message e) ''fetch''" for e
    using that by (simp add: kind_of_network)
  show "retryable_failure (Resolved r) \<longleftrightarrow> status r \<noteq> 404 \<and> status r \<noteq> 403" if "\<not> ok r" for r
    using that by (rule retryable_failure_http)
  show "retryable_failure (Rejected e)"
    if "error_name e = ''TypeError'' \<and> includes_str (message e) ''fetch''" for e
    using that by (simp add: retryable_failure_network)
  show "?run = (Inl (Some (handleHttpError (status r))), io @ [Fetch ?url])"
    if "net (fetch_count io) ?url = Resolved r \<and> (status r = 404 \<or> status r = 403)" for r
  proof -
    from that have r: "net (fetch_count io) ?url = Resolved r" "status r = 404 \<or> status r = 403"
      by simp_all
    then have e: "fetchUserData_resume (net (fetch_count io) ?url) = Inl (handleHttpError (status r))"
      by (auto simp: fetchUserData_resume_def handleHttpError_def ok_def)
    from r(2) have "includes_str (message (handleHttpError (status r))) ''not found''
        \<or> includes_str (message (handleHttpError (status r))) ''rate limit''"
      by (auto simp: handleHttpError_def)
    with n e show ?thesis
      unfolding fetchUserWithRetry_def by (intro retry_loop_no_retry) simp_all
  qed
  {
    fix j e
    assume a: "j < n
            \<and> (\<forall>k < j. retryable_failure (net (fetch_count io + k) ?url))
            \<and> fetchUserData_resume (net (fetch_count io + j) ?url) = Inl e
            \<and> (includes_str (message e) ''not found'' \<or> includes_str (message e) ''rate limit'')"
    then have "1 + j \<le> n" by simp
    from retry_loop_stops_at_no_retry [OF this, of net io u e None] a
    have eq: "?run = (Inl (Some e), io @ attempts_trace ?url 1 (1 + j))"
      by (simp add: fetchUserWithRetry_def)
    show "fst ?run = Inl (Some e)" by (simp add: eq)
    show "fetch_count (snd ?run) = fetch_count io + j + 1" by (simp add: eq)
  }
  {
    assume a: "\<forall>k < n. retryable_failure (net (fetch_count io + k) ?url)"
    with n have "\<forall>k \<le> n - 1. retryable_failure (net (fetch_count io + k) ?url)" by auto
    with n retry_loop_all_fail [of 1 n net io u None]
    obtain e where e: "fetchUserData_resume (net (fetch_count io + (n - 1)) ?url) = Inl e"
      "?run = (Inl (Some e), io @ attempts_trace ?url 1 n)"
      by (auto simp: fetchUserWithRetry_def)
    then show "\<exists>e. fetchUserData_resume (net (fetch_count io + (n - 1)) ?url) = Inl e
             \<and> fst ?run = Inl (Some e)" by simp
    from e n show "fetch_count (snd ?run) = fetch_count io + n" by simp
  }
qed

text \<open>
  Against a server that always answers 500, three attempts are made and the server
  error of the third is thrown.
\<close>

theorem fetchUserWithRetry_attempts_witness:
  "(1::nat) \<le> 3
   \<and> fetch_count (snd (fetchUserWithRetry server_down (JStr ''octocat'') 3 [])) = 3
   \<and> fst (fetchUserWithRetry server_down (JStr ''octocat'') 3 [])
       = Inl (Some (new_Error ''Server error. Please try again later.''))"
proof -
  have n: "(1::nat) \<le> 3" by simp
  have all: "\<forall>k < 3. retryable_failure
      (server_down (fetch_count [] + k) (fetchUserData_url (JStr ''octocat'')))"
    by (simp add: retryable_server_down)
  have last: "fetchUserData_resume (server_down k url)
      = Inl (new_Error ''Server error. Please try again later.'')" for k url
    by (simp add: server_down_def fetchUserData_resume_def ok_def handleHttpError_def)
  show ?thesis
    using n all fetchUserWithRetry_attempts [OF n, of server_down "JStr ''octocat''" "[]"]
    by (auto simp: last)
qed

text \<open>
  C5 as stated fails at an answer 200 whose body is not JSON: \<^verbatim>\<open>response.json()\<close>
  throws a \<^verbatim>\<open>SyntaxError\<close>, which \<^verbatim>\<open>handleNetworkError\<close> throws again unchanged. It is
  of none of the five kinds, and the loop retries it: with a bound of 3, three requests
  are made.
\<close>

theorem unparsable_body_counterexample:
  "ok bad_body
   \<and> fetchUserData_resume (Resolved bad_body)
       = Inl (JsError ''SyntaxError'' ''Unexpected end of JSON input'')
   \<and> kind_of (JsError ''SyntaxError'' ''Unexpected end of JSON input'') = None
   \<and> fetch_count (snd (fetchUserWithRetry garbled (JStr ''octocat'') 3 [])) = 3
   \<and> fst (fetchUserWithRetry garbled (JStr ''octocat'') 3 [])
       = Inl (Some (JsError ''SyntaxError'' ''Unexpected end of JSON input''))"
proof -
  have thrown: "fetchUserData_resume (garbled k url)
      = Inl (JsError ''SyntaxError'' ''Unexpected end of JSON input'')" for k url
    by (simp add: garbled_def bad_body_def fetchUserData_resume_def ok_def handleNetworkError_def)
  have retried: "retryable_failure (garbled k url)" for k url
    by (simp add: retryable_failure_def thrown)
  have all: "\<forall>k \<le> 3 - 1. retryable_failure
      (garbled (fetch_count [] + k) (fetchUserData_url (JStr ''octocat'')))"
    by (simp add: retried)
  from retry_loop_all_fail [of 1 3 garbled "[]" "JStr ''octocat''" None] all
  have run: "fetchUserWithRetry garbled (JStr ''octocat'') 3 []
      = (Inl (Some (JsError ''SyntaxError'' ''Unexpected end of JSON input'')),
         attempts_trace (fetchUserData_url (JStr ''octocat'')) 1 3)"
    by (auto simp: fetchUserWithRetry_def thrown)
  have "ok bad_body" by (simp add: bad_body_def ok_def)
  moreover have "kind_of (JsError ''SyntaxError'' ''Unexpected end of JSON input'') = None"
    by (simp add: kind_of_def new_Error_def)
  ultimately show ?thesis
    using thrown [of 0 "[]"] by (simp add: run garbled_def)
qed

text \<open>
  C6: for a bound \<open>n\<close> of at least 1, the trace of \<^verbatim>\<open>fetchUserWithRetry\<close> is, for some
  number \<open>m\<close> of attempts from 1 to \<open>n\<close>, a request and a timer of \<open>2 ^ k\<close> seconds
  (\<open>2 ^ k * 1000\<close> milliseconds handed to \<^verbatim>\<open>setTimeout\<close>) for each attempt \<open>k\<close> before
  the last, then the last request with no timer after it. When all \<open>n\<close> attempts fail
  and are retried, \<open>m\<close> is \<open>n\<close>, and the waits add up to \<open>2 ^ 1 + ... + 2 ^ (n - 1)\<close>
  seconds, which is \<open>2 ^ n - 2\<close>.
\<close>

theorem fetchUserWithRetry_backoff:
  "1 \<le> n \<Longrightarrow>
     (\<exists>m. 1 \<le> m \<and> m \<le> n
        \<and> snd (fetchUserWithRetry net u n io)
            = io @ concat (map (\<lambda>k. [Fetch (fetchUserData_url u), SetTimeout (2 ^ k * 1000)]) [1..<m])
                 @ [Fetch (fetchUserData_url u)])
   \<and> ((\<forall>k < n. retryable_failure (net (fetch_count io + k) (fetchUserData_url u))) \<longrightarrow>
        snd (fetchUserWithRetry net u n io)
          = io @ concat (map (\<lambda>k. [Fetch (fetchUserData_url u), SetTimeout (2 ^ k * 1000)]) [1..<n])
               @ [Fetch (fetchUserData_url u)]
        \<and> timeouts (snd (fetchUserWithRetry net u n io))
            = timeouts io @ map (\<lambda>k. 2 ^ k * 1000) [1..<n]
        \<and> sum_list (timeouts (snd (fetchUserWithRetry net u n io)))
            = sum_list (timeouts io) + (\<Sum>k = 1..<n. 2 ^ k) * 1000
        \<and> sum_list (timeouts (snd (fetchUserWithRetry net u n io)))
            = sum_list (timeouts io) + (2 ^ n - 2) * 1000)"
proof (intro conjI impI)
  assume n: "1 \<le> n"
  let ?url = "fetchUserData_url u"
  let ?run = "fetchUserWithRetry net u n io"
  from retry_loop_trace [OF n, of net u None io]
  show "\<exists>m. 1 \<le> m \<and> m \<le> n
        \<and> snd ?run = io @ concat (map (\<lambda>k. [Fetch ?url, SetTimeout (2 ^ k * 1000)]) [1..<m]) @ [Fetch ?url]"
    by (simp add: fetchUserWithRetry_def attempts_trace_def)
  assume a: "\<forall>k < n. retryable_failure (net (fetch_count io + k) ?url)"
  with n have "\<forall>k \<le> n - 1. retryable_failure (net (fetch_count io + k) ?url)" by auto
  with n retry_loop_all_fail [of 1 n net io u None]
  have eq: "snd ?run = io @ attempts_trace ?url 1 n"
    by (auto simp: fetchUserWithRetry_def)
  then show "snd ?run = io @ concat (map (\<lambda>k. [Fetch ?url, SetTimeout (2 ^ k * 1000)]) [1..<n]) @ [Fetch ?url]"
    by (simp add: attempts_trace_def)
  from eq show t: "timeouts (snd ?run) = timeouts io @ map (\<lambda>k. 2 ^ k * 1000) [1..<n]"
    by simp
  have s: "sum_list (map (\<lambda>k. 2 ^ k * 1000) [1..<n]) = (\<Sum>k = 1..<n. 2 ^ k) * (1000::nat)"
    by (simp add: sum_list_upt sum_distrib_right)
  from t s show "sum_list (timeouts (snd ?run)) = sum_list (timeouts io) + (\<Sum>k = 1..<n. 2 ^ k) * 1000"
    by simp
  with sum_pow2 [OF n]
  show "sum_list (timeouts (snd ?run)) = sum_list (timeouts io) + (2 ^ n - 2) * 1000"
    by simp
qed

text \<open>
  Against a server that always answers 500 and with three attempts, the waits are 2 and
  4 seconds, 6 in all, and none follows the third request.
\<close>

theorem fetchUserWithRetry_backoff_witness:
  "(1::nat) \<le> 3
   \<and> snd (fetchUserWithRetry server_down (JStr ''octocat'') 3 [])
       = [Fetch ''https://api.github.com/users/octocat'', SetTimeout 2000,
          Fetch ''https://api.github.com/users/octocat'', SetTimeout 4000,
          Fetch ''https://api.github.com/users/octocat'']
   \<and> sum_list (timeouts (snd (fetchUserWithRetry server_down (JStr ''octocat'') 3 []))) = 6000"
proof -
  have n: "(1::nat) \<le> 3" by simp
  have all: "\<forall>k < 3. retryable_failure
      (server_down (fetch_count [] + k) (fetchUserData_url (JStr ''octocat'')))"
    by (simp add: retryable_server_down)
  have upt: "[Suc 0..<3] = [Suc 0, 2]" by (simp add: upt_rec)
  show ?thesis
    using n all fetchUserWithRetry_backoff [OF n, of server_down "JStr ''octocat''" "[]"]
    by (simp add: upt fetchUserData_url_def baseUrl_def)
qed

section \<open>Properties of the controller\<close>

lemmas ctl_defs = loadRandomUser_def loadUser_def refreshCurrentUser_def handleRefresh_def
  handleRetry_def suspend_def call_def fetch_def setLoadingState_def

lemmas resume_defs = resume_def loadRandomUser_resume_def loadUser_resume_def
  refreshCurrentUser_resume_def handleError_def Let_def

lemmas display_defs = displayUserData_def updateBasicInfo_def updateStats_def updateDetails_def
  updateBio_def updateFollowButton_def null_TypeError_def

lemma length_usernames: "length usernames = 41"
  by (simp add: usernames_def)

lemma usernames_20: "usernames ! 20 = ''tomtt''"
  by (simp add: usernames_def)

lemma getRandomUsername_half [simp]:
  "getRandomUsername half w = (JStr ''tomtt'', w\<lparr>random_calls := random_calls w + 1\<rparr>)"
proof -
  have "41 div 2 = (20::nat)" by simp
  then show ?thesis
    by (simp add: getRandomUsername_def half_def length_usernames usernames_20)
qed

lemma not_found_thrown:
  "fetchUserData_resume (Resolved not_found) = Inl (new_Error ''User not found. Please try again.'')"
  by (simp add: fetchUserData_resume_def not_found_def ok_def handleHttpError_def)

text \<open>
  The concrete widgets are states the code reaches: the constructor's first load, with
  a random draw of 0 and the profile of \<^verbatim>\<open>octocat\<close> for an answer, leads from the widget
  that has loaded nothing to the one that shows \<^verbatim>\<open>octocat\<close>, and \<^verbatim>\<open>loadUser("ghost")\<close>
  leads on to the one that awaits its answer.
\<close>

lemma loaded_world_reachable:
  "run full_page zero idle_world [Call_loadRandomUser, Answer 0 (Resolved octocat_response)]
     = loaded_world"
proof -
  have r: "getRandomUsername zero w = (JStr ''octocat'', w\<lparr>random_calls := random_calls w + 1\<rparr>)"
    for w
    by (simp add: getRandomUsername_def usernames_def zero_def)
  have a: "fetchUserData_resume (Resolved octocat_response) = Inr octocat"
    by (simp add: fetchUserData_resume_def octocat_response_def ok_def processUserData_def
        octocat_data_def octocat_def)
  show ?thesis
    by (simp add: run_def ctl_defs resume_defs r a display_defs full_page_def zero_def
        idle_world_def loaded_world_def fetchUserData_url_def baseUrl_def)
      (simp add: octocat_def)
qed

lemma awaiting_world_reachable:
  "step full_page half loaded_world (Call_loadUser (JStr ''ghost'')) = awaiting_world"
proof -
  have t: "trim ''ghost'' = ''ghost''" by (simp add: trim_def isWhiteSpace_def)
  show ?thesis
    by (simp add: ctl_defs isValidUsername_def t loaded_world_def awaiting_world_def
        fetchUserData_url_def baseUrl_def)
qed

subsection \<open>The loading guard\<close>

text \<open>
  While the loading flag is set, a click on the refresh or the retry button, a call of
  \<^verbatim>\<open>loadRandomUser\<close> or of \<^verbatim>\<open>loadUser\<close>, and a call of \<^verbatim>\<open>refreshCurrentUser\<close> when
  there is no current record, change nothing and request nothing.
\<close>

lemma loading_guard:
  "isLoading w \<Longrightarrow>
     step pg rnd w Click_refreshBtn = w \<and> step pg rnd w Click_retryBtn = w
   \<and> step pg rnd w Call_loadRandomUser = w \<and> step pg rnd w (Call_loadUser u) = w
   \<and> (currentUser w = None \<longrightarrow> step pg rnd w Call_refreshCurrentUser = w)"
  by (simp add: ctl_defs)

text \<open>Two clicks on the refresh button in a row make one request.\<close>

lemma refresh_twice_one_request:
  "\<not> isLoading w \<Longrightarrow>
     length (requests (run pg rnd w [Click_refreshBtn, Click_refreshBtn])) = length (requests w) + 1"
  by (simp add: run_def ctl_defs getRandomUsername_def Let_def split: prod.splits)

text \<open>
  C1 at a failing input. The widget shows \<^verbatim>\<open>octocat\<close>; a click on the refresh button
  sets the loading flag and requests a random profile; \<^verbatim>\<open>refreshCurrentUser\<close>, called
  while that load is in flight, makes a second request all the same. Called twice in
  a row on the widget at rest, it makes two requests.
\<close>

theorem refreshCurrentUser_ignores_loading:
  "isLoading (step full_page half loaded_world Click_refreshBtn)
   \<and> requests (step full_page half loaded_world Click_refreshBtn)
       = [''https://api.github.com/users/octocat'', ''https://api.github.com/users/tomtt'']
   \<and> requests (run full_page half loaded_world [Click_refreshBtn, Call_refreshCurrentUser])
       = [''https://api.github.com/users/octocat'', ''https://api.github.com/users/tomtt'',
          ''https://api.github.com/users/octocat'']
   \<and> length (requests (run full_page half loaded_world [Call_refreshCurrentUser, Call_refreshCurrentUser]))
       = length (requests loaded_world) + 2"
  by (simp add: run_def ctl_defs loaded_world_def octocat_def fetchUserData_url_def baseUrl_def)

subsection \<open>Refresh\<close>

text \<open>
  C2, as the code has it: \<^verbatim>\<open>refreshCurrentUser\<close>, when there is a current record,
  makes one request, for the handle of that record and no other, draws no random
  number and leaves the rest of the state as it is; when there is none it is
  \<^verbatim>\<open>loadRandomUser\<close>. The refresh button does not call it: when the widget is not
  loading, a click requests what a random load requests, the handle that
  \<^verbatim>\<open>getRandomUsername\<close> draws, whatever the current record.
\<close>

theorem refreshCurrentUser_targets_current:
  "(currentUser w = Some cu \<longrightarrow>
      step pg rnd w Call_refreshCurrentUser
        = w\<lparr> requests := requests w @ [fetchUserData_url (JStr (username cu))],
             pending := pending w @ [(length (requests w), K_refreshCurrentUser)] \<rparr>)
   \<and> (currentUser w = None \<longrightarrow>
      refreshCurrentUser rnd w = loadRandomUser rnd w
      \<and> step pg rnd w Call_refreshCurrentUser = step pg rnd w Call_loadRandomUser)
   \<and> (\<not> isLoading w \<longrightarrow>
      requests (step pg rnd w Click_refreshBtn) = requests (step pg rnd w Call_loadRandomUser)
      \<and> requests (step pg rnd w Call_loadRandomUser)
          = requests w @ [fetchUserData_url (fst (getRandomUsername rnd w))])"
  by (simp add: ctl_defs getRandomUsername_def Let_def split: prod.splits)

text \<open>
  On the widget that shows \<^verbatim>\<open>octocat\<close>, \<^verbatim>\<open>refreshCurrentUser\<close> requests \<^verbatim>\<open>octocat\<close>
  again; on the widget that has loaded nothing it does what a random load does.
\<close>

theorem refreshCurrentUser_targets_current_witness:
  "step full_page half loaded_world Call_refreshCurrentUser
     = loaded_world\<lparr> requests := [''https://api.github.com/users/octocat'',
                                    ''https://api.github.com/users/octocat''],
                      pending := [(1, K_refreshCurrentUser)] \<rparr>
   \<and> step full_page half idle_world Call_refreshCurrentUser = step full_page half idle_world Call_loadRandomUser
   \<and> requests (step full_page half idle_world Click_refreshBtn) = [''https://api.github.com/users/tomtt'']"
proof -
  have h1: "currentUser loaded_world = Some octocat" by (simp add: loaded_world_def)
  have h2: "currentUser idle_world = None" "\<not> isLoading idle_world" by (simp_all add: idle_world_def)
  show ?thesis
    using h1 h2
      refreshCurrentUser_targets_current
        [where w = loaded_world and cu = octocat and pg = full_page and rnd = half]
      refreshCurrentUser_targets_current
        [where w = idle_world and cu = octocat and pg = full_page and rnd = half]
    by (simp add: loaded_world_def octocat_def idle_world_def fetchUserData_url_def baseUrl_def)
qed

text \<open>
  C2 as stated fails for the refresh button: the widget shows \<^verbatim>\<open>octocat\<close>, and a click
  requests the random handle \<^verbatim>\<open>tomtt\<close>.
\<close>

theorem refresh_button_counterexample:
  "currentUser loaded_world = Some octocat \<and> username octocat = ''octocat''
   \<and> requests (step full_page half loaded_world Click_refreshBtn)
       = requests loaded_world @ [''https://api.github.com/users/tomtt'']"
  by (simp add: ctl_defs loaded_world_def octocat_def fetchUserData_url_def baseUrl_def)

subsection \<open>Validation\<close>

text \<open>
  C4, as the code has it: the check is in the controller, not in the DataSource.
  \<^verbatim>\<open>isValidUsername\<close> accepts exactly the strings that are not empty once trimmed. On
  any other handle \<^verbatim>\<open>loadUser\<close> makes no request; when the widget is not loading it
  shows the error panel with \<^verbatim>\<open>Please enter a valid username\<close> and does nothing else.
  On an accepted handle, when not loading, it requests that handle. \<^verbatim>\<open>fetchUserData\<close>
  itself checks nothing: it makes its request for any handle.
\<close>

theorem loadUser_validation:
  "(truthy (isValidUsername u) \<longleftrightarrow> (\<exists>s. u = JStr s \<and> trim s \<noteq> []))
   \<and> (\<not> truthy (isValidUsername u) \<longrightarrow>
        requests (step pg rnd w (Call_loadUser u)) = requests w
        \<and> pending (step pg rnd w (Call_loadUser u)) = pending w
        \<and> (\<not> isLoading w \<longrightarrow>
             step pg rnd w (Call_loadUser u)
               = call (ShowErrorState ''Please enter a valid username'') w))
   \<and> (truthy (isValidUsername u) \<and> \<not> isLoading w \<longrightarrow>
        requests (step pg rnd w (Call_loadUser u)) = requests w @ [fetchUserData_url u])
   \<and> snd (fetchUserData net u io) = io @ [Fetch (baseUrl @ ''/'' @ ToString u)]"
  by (auto simp: isValidUsername_iff ctl_defs fetchUserData_def fetchUserData_url_def Let_def)

text \<open>
  The empty handle on the widget at rest: \<^verbatim>\<open>loadUser\<close> shows the panel and requests
  nothing, while \<^verbatim>\<open>fetchUserData\<close> makes a request.
\<close>

theorem loadUser_validation_witness:
  "\<not> truthy (isValidUsername (JStr []))
   \<and> requests (step full_page half idle_world (Call_loadUser (JStr []))) = []
   \<and> pending (step full_page half idle_world (Call_loadUser (JStr []))) = []
   \<and> step full_page half idle_world (Call_loadUser (JStr []))
       = idle_world\<lparr>effects := [ShowErrorState ''Please enter a valid username'']\<rparr>
   \<and> requests (step full_page half idle_world (Call_loadUser (JStr ''ghost'')))
       = [''https://api.github.com/users/ghost'']
   \<and> snd (fetchUserData offline (JStr []) []) = [Fetch ''https://api.github.com/users/'']"
proof -
  have t: "trim [] = []" "trim ''ghost'' = ''ghost''" by (simp_all add: trim_def isWhiteSpace_def)
  have i: "\<not> isLoading idle_world" by (simp add: idle_world_def)
  show ?thesis
    using i t
      loadUser_validation
        [where u = "JStr []" and pg = full_page and rnd = half and w = idle_world
           and net = offline and io = "[]"]
      loadUser_validation
        [where u = "JStr ''ghost''" and pg = full_page and rnd = half and w = idle_world
           and net = offline and io = "[]"]
    by (simp add: idle_world_def call_def baseUrl_def fetchUserData_url_def)
qed

text \<open>
  C4 as stated fails at the empty handle: \<^verbatim>\<open>fetchUserData\<close> makes the request, so the
  count of requests goes from 0 to 1, and what it throws is the network's error, not
  a validation error.
\<close>

theorem empty_handle_counterexample:
  "fetchUserData offline (JStr []) []
     = (Inl (new_Error ''Network error. Please check your internet connection.''),
        [Fetch ''https://api.github.com/users/''])
   \<and> fetch_count (snd (fetchUserData offline (JStr []) [])) = 1"
  by (simp add: fetchUserData_def fetchUserData_url_def baseUrl_def offline_def
      fetchUserData_resume_def handleNetworkError_def)

subsection \<open>Failures\<close>

text \<open>
  C8, as the code has it: when the request of a load is answered by a failure, the
  controller shows the error panel and then a notification of type \<^verbatim>\<open>error\<close>, both
  with the same message: that of the error, or a fixed one when the error has none
  (\<^verbatim>\<open>loadRandomUser\<close> and \<^verbatim>\<open>loadUser\<close> log the error first, \<^verbatim>\<open>handleRefresh\<close> resets its
  button last). The same holds when the fetch succeeds and \<^verbatim>\<open>displayUserData\<close> then
  throws. A handle that \<^verbatim>\<open>loadUser\<close> rejects, on a widget that is not loading, gets
  the panel alone, with \<^verbatim>\<open>Please enter a valid username\<close>, and no notification.
\<close>

theorem load_failure_feedback:
  "(\<forall>out e i k m.
      fetchUserData_resume out = Inl e \<and> map_of (pending w) i = Some k
      \<and> m = (if message e \<noteq> [] then message e
              else ''An unexpected error occurred. Please try again.'') \<longrightarrow>
      effects (step pg rnd w (Answer i out))
        = effects w @
            (case k of
               K_refreshCurrentUser \<Rightarrow> [ShowErrorState m, ShowNotification m ''error'']
             | K_handleRefresh \<Rightarrow>
                 [ConsoleError ''Error loading user:'' e, ShowErrorState m,
                  ShowNotification m ''error'', RemoveRefreshButtonLoading]
             | _ \<Rightarrow>
                 [ConsoleError ''Error loading user:'' e, ShowErrorState m,
                  ShowNotification m ''error'']))
   \<and> (\<forall>userData e w1 m.
      displayUserData pg rnd userData (w\<lparr>currentUser := Some userData\<rparr>) = (Some e, w1)
      \<and> m = (if message e \<noteq> [] then message e
              else ''An unexpected error occurred. Please try again.'') \<longrightarrow>
      effects (loadRandomUser_resume pg rnd (Inr userData) w)
        = effects w1 @ [ConsoleError ''Error loading user:'' e, ShowErrorState m,
                        ShowNotification m ''error'']
      \<and> effects (loadUser_resume pg rnd (Inr userData) w)
        = effects w1 @ [ConsoleError ''Error loading user:'' e, ShowErrorState m,
                        ShowNotification m ''error'']
      \<and> effects (refreshCurrentUser_resume pg rnd (Inr userData) w)
        = effects w1 @ [ShowErrorState m, ShowNotification m ''error''])
   \<and> (\<forall>u. \<not> isLoading w \<and> \<not> truthy (isValidUsername u) \<longrightarrow>
         effects (step pg rnd w (Call_loadUser u))
           = effects w @ [ShowErrorState ''Please enter a valid username''])"
proof (intro conjI allI impI)
  fix out e i k m
  assume "fetchUserData_resume out = Inl e \<and> map_of (pending w) i = Some k
      \<and> m = (if message e \<noteq> [] then message e
              else ''An unexpected error occurred. Please try again.'')"
  then show "effects (step pg rnd w (Answer i out))
        = effects w @
            (case k of
               K_refreshCurrentUser \<Rightarrow> [ShowErrorState m, ShowNotification m ''error'']
             | K_handleRefresh \<Rightarrow>
                 [ConsoleError ''Error loading user:'' e, ShowErrorState m,
                  ShowNotification m ''error'', RemoveRefreshButtonLoading]
             | _ \<Rightarrow>
                 [ConsoleError ''Error loading user:'' e, ShowErrorState m,
                  ShowNotification m ''error''])"
    by (cases k) (simp_all add: resume_defs ctl_defs)
next
  fix userData e w1 m
  assume a: "displayUserData pg rnd userData (w\<lparr>currentUser := Some userData\<rparr>) = (Some e, w1)
      \<and> m = (if message e \<noteq> [] then message e
              else ''An unexpected error occurred. Please try again.'')"
  from a show "effects (loadRandomUser_resume pg rnd (Inr userData) w)
        = effects w1 @ [ConsoleError ''Error loading user:'' e, ShowErrorState m,
                        ShowNotification m ''error'']"
    by (simp add: resume_defs ctl_defs)
  from a show "effects (loadUser_resume pg rnd (Inr userData) w)
        = effects w1 @ [ConsoleError ''Error loading user:'' e, ShowErrorState m,
                        ShowNotification m ''error'']"
    by (simp add: resume_defs ctl_defs)
  from a show "effects (refreshCurrentUser_resume pg rnd (Inr userData) w)
        = effects w1 @ [ShowErrorState m, ShowNotification m ''error'']"
    by (simp add: resume_defs ctl_defs)
next
  fix u
  assume "\<not> isLoading w \<and> \<not> truthy (isValidUsername u)"
  then show "effects (step pg rnd w (Call_loadUser u))
           = effects w @ [ShowErrorState ''Please enter a valid username'']"
    by (simp add: ctl_defs)
qed

text \<open>
  The load of \<^verbatim>\<open>ghost\<close> is answered 404: the error is logged, then the panel and the
  notification carry the message of the 404. On a page without the avatar, a fetched
  record cannot be displayed: the panel and the notification carry the engine's
  message. On the widget at rest, the empty handle gets the panel alone.
\<close>

theorem load_failure_feedback_witness:
  "fetchUserData_resume (Resolved not_found) = Inl (new_Error ''User not found. Please try again.'')
   \<and> map_of (pending awaiting_world) 1 = Some K_loadUser
   \<and> effects (step full_page half awaiting_world (Answer 1 (Resolved not_found)))
       = effects awaiting_world @
         [ConsoleError ''Error loading user:'' (new_Error ''User not found. Please try again.''),
          ShowErrorState ''User not found. Please try again.'',
          ShowNotification ''User not found. Please try again.'' ''error'']
   \<and> effects (loadRandomUser_resume no_avatar_page half (Inr octocat) idle_world)
       = [DisplayUserData octocat,
          ConsoleError ''Error loading user:'' (JsError ''TypeError'' ''Cannot set properties of null''),
          ShowErrorState ''Cannot set properties of null'',
          ShowNotification ''Cannot set properties of null'' ''error'']
   \<and> \<not> isLoading idle_world \<and> \<not> truthy (isValidUsername (JStr []))
   \<and> effects (step full_page half idle_world (Call_loadUser (JStr [])))
       = [ShowErrorState ''Please enter a valid username'']"
proof -
  note h = not_found_thrown
  have p: "map_of (pending awaiting_world) 1 = Some K_loadUser"
    by (simp add: awaiting_world_def)
  have d: "displayUserData no_avatar_page half octocat (idle_world\<lparr>currentUser := Some octocat\<rparr>)
      = (Some (JsError ''TypeError'' ''Cannot set properties of null''),
         call (DisplayUserData octocat) (idle_world\<lparr>currentUser := Some octocat\<rparr>))"
    by (simp add: display_defs no_avatar_page_def full_page_def)
  have v: "\<not> isLoading idle_world" "\<not> truthy (isValidUsername (JStr []))"
    by (simp_all add: idle_world_def isValidUsername_def)
  have c1: "effects (step full_page half awaiting_world (Answer 1 (Resolved not_found)))
       = effects awaiting_world @
         [ConsoleError ''Error loading user:'' (new_Error ''User not found. Please try again.''),
          ShowErrorState ''User not found. Please try again.'',
          ShowNotification ''User not found. Please try again.'' ''error'']"
    using load_failure_feedback [where w = awaiting_world and pg = full_page and rnd = half,
        THEN conjunct1, rule_format, of "Resolved not_found" _ 1 K_loadUser] h p
    by simp
  have c2: "effects (loadRandomUser_resume no_avatar_page half (Inr octocat) idle_world)
       = [DisplayUserData octocat,
          ConsoleError ''Error loading user:'' (JsError ''TypeError'' ''Cannot set properties of null''),
          ShowErrorState ''Cannot set properties of null'',
          ShowNotification ''Cannot set properties of null'' ''error'']"
    using load_failure_feedback [where w = idle_world and pg = no_avatar_page and rnd = half,
        THEN conjunct2, THEN conjunct1, rule_format, of octocat] d
    by (simp add: call_def idle_world_def)
  have c3: "effects (step full_page half idle_world (Call_loadUser (JStr [])))
       = [ShowErrorState ''Please enter a valid username'']"
    using load_failure_feedback [where w = idle_world and pg = full_page and rnd = half,
        THEN conjunct2, THEN conjunct2, rule_format, of "JStr []"] v
    by (simp add: idle_world_def)
  from h p c1 c2 v c3 show ?thesis by blast
qed

text \<open>
  C8 as stated fails at a validation failure: \<^verbatim>\<open>loadUser\<close> with the empty handle, on
  the widget at rest, calls the error panel and nothing else; no notification is made.
\<close>

theorem validation_failure_counterexample:
  "\<not> truthy (isValidUsername (JStr []))
   \<and> effects (step full_page half idle_world (Call_loadUser (JStr [])))
       = [ShowErrorState ''Please enter a valid username'']"
  by (simp add: isValidUsername_def ctl_defs idle_world_def)

subsection \<open>The current record\<close>

lemma resume_failure_currentUser:
  "currentUser (resume pg rnd k (Inl e) w) = currentUser w"
  by (cases k) (simp_all add: resume_defs ctl_defs)

lemma resume_parts_failure_currentUser:
  "currentUser (loadRandomUser_resume pg rnd (Inl e) w) = currentUser w"
  "currentUser (loadUser_resume pg rnd (Inl e) w) = currentUser w"
  "currentUser (refreshCurrentUser_resume pg rnd (Inl e) w) = currentUser w"
  by (simp_all add: resume_defs ctl_defs)

lemma answer_failure_currentUser:
  "fetchUserData_resume out = Inl e \<Longrightarrow> currentUser (step pg rnd w (Answer i out)) = currentUser w"
  by (simp add: resume_failure_currentUser split: option.splits)

lemma begin_currentUser:
  "currentUser (step pg rnd w Call_loadRandomUser) = currentUser w"
  "currentUser (step pg rnd w (Call_loadUser u)) = currentUser w"
  "currentUser (step pg rnd w Call_refreshCurrentUser) = currentUser w"
  "currentUser (step pg rnd w Click_refreshBtn) = currentUser w"
  "currentUser (step pg rnd w Click_retryBtn) = currentUser w"
  by (simp_all add: ctl_defs getRandomUsername_def Let_def split: prod.splits option.splits)

text \<open>\<^verbatim>\<open>displayUserData\<close> does not write the current record, whether it throws or not.\<close>

lemma displayUserData_currentUser:
  "currentUser (snd (displayUserData pg rnd userData w)) = currentUser w"
  by (simp add: display_defs call_def Let_def split: option.splits)

lemma resume_parts_success_currentUser:
  "currentUser (loadRandomUser_resume pg rnd (Inr userData) w) = Some userData"
  "currentUser (loadUser_resume pg rnd (Inr userData) w) = Some userData"
  "currentUser (refreshCurrentUser_resume pg rnd (Inr userData) w) = Some userData"
  using displayUserData_currentUser [of pg rnd userData "w\<lparr>currentUser := Some userData\<rparr>"]
  by (auto simp: resume_defs ctl_defs split: prod.splits option.splits)

text \<open>
  C9, as the code has it: a load whose fetch fails leaves the current record as it
  was. Neither the part of \<^verbatim>\<open>loadRandomUser\<close>, \<^verbatim>\<open>loadUser\<close> or \<^verbatim>\<open>refreshCurrentUser\<close>
  that runs up to the request (the rejection of a handle by \<^verbatim>\<open>loadUser\<close> included),
  nor the part that runs when the request is answered by a failure, writes
  \<^verbatim>\<open>currentUser\<close>; so after the call and its failing answer the field holds what it
  held before the call. When the fetch succeeds, the record fetched is stored before
  it is displayed: the field holds it afterwards, also when \<^verbatim>\<open>displayUserData\<close> throws
  and the load ends in the error panel.
\<close>

theorem failed_load_keeps_currentUser:
  "(\<forall>e. fetchUserData_resume out = Inl e \<longrightarrow>
       currentUser (loadRandomUser_resume pg rnd (Inl e) w) = currentUser w
     \<and> currentUser (loadUser_resume pg rnd (Inl e) w) = currentUser w
     \<and> currentUser (refreshCurrentUser_resume pg rnd (Inl e) w) = currentUser w
     \<and> currentUser (step pg rnd w (Answer i out)) = currentUser w
     \<and> currentUser (run pg rnd w [Call_loadRandomUser, Answer i out]) = currentUser w
     \<and> currentUser (run pg rnd w [Call_loadUser u, Answer i out]) = currentUser w
     \<and> currentUser (run pg rnd w [Call_refreshCurrentUser, Answer i out]) = currentUser w)
   \<and> currentUser (step pg rnd w Call_loadRandomUser) = currentUser w
   \<and> currentUser (step pg rnd w (Call_loadUser u)) = currentUser w
   \<and> currentUser (step pg rnd w Call_refreshCurrentUser) = currentUser w
   \<and> (\<forall>userData.
         currentUser (loadRandomUser_resume pg rnd (Inr userData) w) = Some userData
       \<and> currentUser (loadUser_resume pg rnd (Inr userData) w) = Some userData
       \<and> currentUser (refreshCurrentUser_resume pg rnd (Inr userData) w) = Some userData)"
proof -
  have a: "currentUser (step pg rnd w' (Answer i out)) = currentUser w'"
    if "fetchUserData_resume out = Inl e" for w' e
    using that by (rule answer_failure_currentUser)
  show ?thesis
    by (intro conjI allI impI)
      (simp_all only: run_def foldl_Cons foldl_Nil a begin_currentUser
        resume_parts_failure_currentUser resume_parts_success_currentUser)
qed

text \<open>
  The widget shows \<^verbatim>\<open>octocat\<close>; \<^verbatim>\<open>loadUser("ghost")\<close> is called and answered 404: the
  current record is still \<^verbatim>\<open>octocat\<close>. On a page without the avatar, a fetched
  record is stored though it cannot be displayed.
\<close>

theorem failed_load_keeps_currentUser_witness:
  "fetchUserData_resume (Resolved not_found) = Inl (new_Error ''User not found. Please try again.'')
   \<and> currentUser (run full_page half loaded_world
         [Call_loadUser (JStr ''ghost''), Answer 1 (Resolved not_found)])
       = Some octocat
   \<and> currentUser (loadRandomUser_resume no_avatar_page half (Inr octocat) idle_world)
       = Some octocat"
proof -
  note h = not_found_thrown
  note t = failed_load_keeps_currentUser
    [where out = "Resolved not_found" and pg = full_page and rnd = half and w = loaded_world
       and i = 1 and u = "JStr ''ghost''"]
  have c: "currentUser loaded_world = Some octocat" by (simp add: loaded_world_def)
  from t [THEN conjunct1, rule_format, OF h] c
  have c1: "currentUser (run full_page half loaded_world
         [Call_loadUser (JStr ''ghost''), Answer 1 (Resolved not_found)]) = Some octocat"
    by simp
  have c2: "currentUser (loadRandomUser_resume no_avatar_page half (Inr octocat) idle_world)
       = Some octocat"
    using failed_load_keeps_currentUser
      [where pg = no_avatar_page and rnd = half and w = idle_world]
    by blast
  from h c1 c2 show ?thesis by blast
qed

text \<open>
  C9 as stated fails on a page without the avatar: the constructor's load fetches the
  profile of \<^verbatim>\<open>octocat\<close>, stores it, and \<^verbatim>\<open>displayUserData\<close> throws; the load ends in
  the error panel and the notification, and the current record, \<^verbatim>\<open>null\<close> before, is
  \<^verbatim>\<open>octocat\<close> after.
\<close>

theorem failed_display_counterexample:
  "currentUser idle_world = None
   \<and> currentUser (run no_avatar_page zero idle_world
         [Call_loadRandomUser, Answer 0 (Resolved octocat_response)])
       = Some octocat
   \<and> effects (run no_avatar_page zero idle_world
         [Call_loadRandomUser, Answer 0 (Resolved octocat_response)])
       = [ShowLoadingState, DisplayUserData octocat,
          ConsoleError ''Error loading user:'' (JsError ''TypeError'' ''Cannot set properties of null''),
          ShowErrorState ''Cannot set properties of null'',
          ShowNotification ''Cannot set properties of null'' ''error'']"
proof -
  have r: "getRandomUsername zero w = (JStr ''octocat'', w\<lparr>random_calls := random_calls w + 1\<rparr>)"
    for w
    by (simp add: getRandomUsername_def usernames_def zero_def)
  have a: "fetchUserData_resume (Resolved octocat_response) = Inr octocat"
    by (simp add: fetchUserData_resume_def octocat_response_def ok_def processUserData_def
        octocat_data_def octocat_def)
  show ?thesis
    by (simp add: run_def ctl_defs resume_defs r a display_defs no_avatar_page_def full_page_def
        idle_world_def)
qed

subsection \<open>Follow and message\<close>

text \<open>
  C10: while no record has been loaded (\<^verbatim>\<open>currentUser\<close> is \<^verbatim>\<open>null\<close>), a click on the
  follow button or on the message button changes nothing: no call on the renderer,
  no notification among them, and the same state.
\<close>

theorem no_user_follow_message_noop:
  "currentUser w = None \<Longrightarrow>
     handleFollow w = w \<and> handleMessage w = w
     \<and> step pg rnd w Click_followBtn = w \<and> step pg rnd w Click_messageBtn = w"
  by (simp add: handleFollow_def handleMessage_def)

text \<open>On the widget that has loaded nothing, both clicks leave it as it is.\<close>

theorem no_user_follow_message_noop_witness:
  "currentUser idle_world = None
   \<and> handleFollow idle_world = idle_world \<and> handleMessage idle_world = idle_world
   \<and> step full_page half idle_world Click_followBtn = idle_world
   \<and> step full_page half idle_world Click_messageBtn = idle_world"
proof -
  have h: "currentUser idle_world = None" by (simp add: idle_world_def)
  show ?thesis
    using h no_user_follow_message_noop [OF h, where pg = full_page and rnd = half] by simp
qed

text \<open>With a record loaded, the follow button toggles and notifies once each time.\<close>

lemma handleFollow_loaded:
  "currentUser w = Some cu \<Longrightarrow>
     followBtn_Following (handleFollow w) = (\<not> followBtn_Following w)
   \<and> handleFollow w \<noteq> w
   \<and> followBtn_Following (handleFollow (handleFollow w)) = followBtn_Following w"
  by (auto simp: handleFollow_def toggleFollow_def call_def Let_def
      dest: arg_cong [where f = followBtn_Following])

end
